theory Spec2Isabelle
  imports Main "HOL-Library.AList"
begin

section \<open>The cluster worker: data model\<close>

text \<open>
  The worker of \<^verbatim>\<open>app/worker/cluster_worker.py\<close> is an object whose methods mutate
  its attributes, call collaborators (executors, the project type, the network client) and
  start threads. Every method is modelled as a function from the worker before the call to
  a triple: how the call ends, the worker after the call, and the list of calls it made on
  its collaborators, in order. Logging is left out.
\<close>

subsection \<open>Exceptions and the ways a call can end\<close>

datatype exn =
    RuntimeError
  | BadRequestError
  | SetupFailureError
  | ConnectionError
  | Timeout
  | AttributeError
  | TypeError
  | ValueError
  | SystemExit int
  | OtherError string

text \<open>
  A call returns a value, raises, or blocks for ever on the queue of idle executors
  (\<^verbatim>\<open>Queue.get\<close> on an empty queue, \<^verbatim>\<open>Queue.put\<close> on a full one, a polling loop that
  never sees what it waits for).
\<close>

datatype 'a outcome = Returns 'a | Raises exn | Blocks

subsection \<open>Collaborators\<close>

type_synonym params = "(string \<times> string) list"

text \<open>A \<^verbatim>\<open>SubjobExecutor(executor_id)\<close> handle; \<^verbatim>\<open>executor.id\<close> is its only attribute read here.\<close>

datatype SubjobExecutor = SubjobExecutor (executor_id: int)

text \<open>
  Modelled from the spec: \<^verbatim>\<open>util.create_project_type\<close> and the \<^verbatim>\<open>ProjectType\<close> class are
  not part of the sources at hand. The spec calls the result "a freshly-constructed
  ProjectType from \<^verbatim>\<open>project_type_params\<close>", an opaque handle; as an object without a
  length it is truthy in \<^verbatim>\<open>not self._project_type\<close>.
\<close>

datatype ProjectType = ProjectType params

definition create_project_type :: "params \<Rightarrow> ProjectType" where
  "create_project_type project_type_params = ProjectType project_type_params"

text \<open>
  Modelled from the spec: \<^verbatim>\<open>app.util.single_use_coin.SingleUseCoin\<close> is not part of the
  sources at hand. The spec describes "a single-use guard: may be spent exactly once" with
  "one atomic spend returning success exactly once". \<open>spend\<close> returns the answer and the
  coin afterwards. A coin object is truthy in \<^verbatim>\<open>not self._build_teardown_coin\<close>.
\<close>

datatype SingleUseCoin = SingleUseCoin (is_spent: bool)

definition spend :: "SingleUseCoin \<Rightarrow> bool \<times> SingleUseCoin" where
  "spend coin = (\<not> is_spent coin, SingleUseCoin True)"

subsection \<open>WorkerState\<close>

datatype WorkerState = DISCONNECTED | SHUTDOWN | IDLE | SETUP_COMPLETED | SETUP_FAILED

fun WorkerState_value :: "WorkerState \<Rightarrow> string" where
  "WorkerState_value DISCONNECTED = ''DISCONNECTED''"
| "WorkerState_value SHUTDOWN = ''SHUTDOWN''"
| "WorkerState_value IDLE = ''IDLE''"
| "WorkerState_value SETUP_COMPLETED = ''SETUP_COMPLETE''"
| "WorkerState_value SETUP_FAILED = ''SETUP_FAILED''"

text \<open>
  \<^verbatim>\<open>class WorkerState(str, Enum)\<close>: a member is a \<^verbatim>\<open>str\<close> whose content is its value, and
  \<^verbatim>\<open>member == s\<close> is the string comparison of that content with \<^verbatim>\<open>s\<close>.
\<close>

definition WorkerState_eq_str :: "WorkerState \<Rightarrow> string \<Rightarrow> bool" where
  "WorkerState_eq_str member s = (WorkerState_value member = s)"

subsection \<open>Threads, callbacks and the calls a method makes\<close>

datatype task =
    AsyncSetupBuild "SubjobExecutor list" params int
  | AsyncTeardownBuild
  | ExecuteSubjob int int SubjobExecutor "string list"

datatype callback = DoBuildTeardownAndReset "int option" | DisconnectFromManager

datatype event =
    ThreadStart task
  | QueueGet SubjobExecutor
  | QueuePut SubjobExecutor
  | ExecutorKill SubjobExecutor
  | ExecutorConfigure SubjobExecutor params
  | ExecutorExecute SubjobExecutor int int "string list" "int option"
  | FetchProject ProjectType
  | RunJobConfigSetup ProjectType
  | ProjectTeardownBuild ProjectType "int option"
  | PostConnect string string int int
  | PostHeartbeat string "int option"
  | PutState string "int option" WorkerState
  | GetManager string
  | OpenFile string
  | PostResult string int int int string
  | AnalyticsStart int int int
  | AnalyticsFinish int int int
  | Sleep int
  | SchedulerEnter int
  | SysExit int
  | AddTeardownCallback callback

subsection \<open>The worker object\<close>

text \<open>
  \<open>idle_executors\<close> is the \<^verbatim>\<open>Queue(maxsize=num_executors)\<close>, oldest first;
  \<open>executors_by_id\<close> is the dict, in insertion order. \<open>manager_api\<close> is the
  \<^verbatim>\<open>UrlBuilder\<close> of the manager's address, \<open>None\<close> until the worker connects.
\<close>

record ClusterWorker =
  port :: int
  host :: string
  is_alive :: bool
  worker_id :: "int option"
  num_executors :: int
  idle_executors :: "SubjobExecutor list"
  executors_by_id :: "(int \<times> SubjobExecutor) list"
  manager_url :: "string option"
  manager_api :: "string option"
  project_type :: "ProjectType option"
  current_build_id :: "int option"
  build_teardown_coin :: "SingleUseCoin option"
  base_executor_index :: "int option"
  heartbeat_failure_count :: int
  heartbeat_failure_threshold :: int
  heartbeat_interval :: int

type_synonym 'a result = "'a outcome \<times> ClusterWorker \<times> event list"

text \<open>\<^verbatim>\<open>Queue.full()\<close> is \<^verbatim>\<open>0 < self.maxsize <= self._qsize()\<close>.\<close>

definition full :: "ClusterWorker \<Rightarrow> bool" where
  "full w = (0 < num_executors w \<and> num_executors w \<le> int (length (idle_executors w)))"

text \<open>\<^verbatim>\<open>self.executors_by_id.values()\<close>\<close>

definition executors_values :: "ClusterWorker \<Rightarrow> SubjobExecutor list" where
  "executors_values w = map snd (executors_by_id w)"

subsection \<open>Construction\<close>

text \<open>\<^verbatim>\<open>range(n)\<close> is empty for \<^verbatim>\<open>n <= 0\<close>.\<close>

definition range_py :: "int \<Rightarrow> int list" where
  "range_py n = map int [0..<nat n]"

text \<open>
  The loop of \<^verbatim>\<open>__init__\<close>. It puts at most \<^verbatim>\<open>num_executors\<close> executors into a queue
  of that capacity, so no \<^verbatim>\<open>put\<close> blocks.
\<close>

fun init_loop ::
  "int list \<Rightarrow> SubjobExecutor list \<times> (int \<times> SubjobExecutor) list
     \<Rightarrow> SubjobExecutor list \<times> (int \<times> SubjobExecutor) list" where
  "init_loop [] acc = acc"
| "init_loop (i # ids) (queue, by_id) =
     init_loop ids (queue @ [SubjobExecutor i], AList.update i (SubjobExecutor i) by_id)"

text \<open>
  \<^verbatim>\<open>ClusterWorker(port, host, num_executors)\<close>; the two \<^verbatim>\<open>Configuration\<close> values read by
  the constructor are parameters.
\<close>

definition init :: "int \<Rightarrow> string \<Rightarrow> int \<Rightarrow> int \<Rightarrow> int \<Rightarrow> ClusterWorker" where
  "init port_arg host_arg num_executors_arg threshold interval =
     (let (queue, by_id) = init_loop (range_py num_executors_arg) ([], []) in
      \<lparr> port = port_arg, host = host_arg, is_alive = True, worker_id = None,
        num_executors = num_executors_arg, idle_executors = queue, executors_by_id = by_id,
        manager_url = None, manager_api = None, project_type = None,
        current_build_id = None, build_teardown_coin = None, base_executor_index = None,
        heartbeat_failure_count = 0, heartbeat_failure_threshold = threshold,
        heartbeat_interval = interval \<rparr>)"

section \<open>Operations\<close>

text \<open>
  Calls on collaborators for which the source has a handler, a flag or a comment about
  failure take their result as an argument (\<open>None\<close>: the call returned; \<open>Some e\<close>: it
  raised \<open>e\<close>): the network requests of the heartbeat, of the responsiveness probe and of
  the state notification, the three set-up steps of the project type, and its
  \<^verbatim>\<open>teardown_build\<close>. So do the calls whose failure the source does not handle but
  which stand between two effects on the worker: the registration post and the reading
  of its response, \<^verbatim>\<open>executor.execute_subjob\<close>, the opening of the results file and the
  upload of the results. \<^verbatim>\<open>executor.kill\<close> and the analytics events are taken to return.
  Reading \<^verbatim>\<open>self._manager_api.url\<close> or a method of \<^verbatim>\<open>self._project_type\<close> while the
  attribute is \<^verbatim>\<open>None\<close> raises \<open>AttributeError\<close>.
\<close>

text \<open>Sequencing: the second part runs only if the first returns; the calls made add up.\<close>

definition and_then :: "'a result \<Rightarrow> ('a \<Rightarrow> ClusterWorker \<Rightarrow> 'b result) \<Rightarrow> 'b result" where
  "and_then first rest =
     (case first of
        (Returns x, w, evs) \<Rightarrow> (case rest x w of (r, w', evs') \<Rightarrow> (r, w', evs @ evs'))
      | (Raises e, w, evs) \<Rightarrow> (Raises e, w, evs)
      | (Blocks, w, evs) \<Rightarrow> (Blocks, w, evs))"

definition is_transport_error :: "exn \<Rightarrow> bool" where
  "is_transport_error e = (e = ConnectionError \<or> e = Timeout)"

subsection \<open>Heartbeat\<close>

text \<open>\<^verbatim>\<open>kill\<close> is \<^verbatim>\<open>sys.exit(0)\<close>, which raises \<^verbatim>\<open>SystemExit(0)\<close>.\<close>

definition kill :: "ClusterWorker \<Rightarrow> unit result" where
  "kill w = (Raises (SystemExit 0), w, [SysExit 0])"

definition send_heartbeat_to_manager :: "ClusterWorker \<Rightarrow> exn option \<Rightarrow> unit result" where
  "send_heartbeat_to_manager w post_outcome =
     (case manager_api w of
        None \<Rightarrow> (Raises AttributeError, w, [])
      | Some api \<Rightarrow>
          (case post_outcome of
             None \<Rightarrow> (Returns (), w, [PostHeartbeat api (worker_id w)])
           | Some e \<Rightarrow> (Raises e, w, [PostHeartbeat api (worker_id w)])))"

definition run_heartbeat :: "ClusterWorker \<Rightarrow> exn option \<Rightarrow> unit result" where
  "run_heartbeat w post_outcome =
     (case send_heartbeat_to_manager w post_outcome of
        (Returns _, w1, evs) \<Rightarrow>
          (Returns (), w1\<lparr>heartbeat_failure_count := 0\<rparr>,
           evs @ [SchedulerEnter (heartbeat_interval w1)])
      | (Raises e, w1, evs) \<Rightarrow>
          if is_transport_error e then
            (let w2 = w1\<lparr>heartbeat_failure_count := heartbeat_failure_count w1 + 1\<rparr> in
             if heartbeat_failure_threshold w2 \<le> heartbeat_failure_count w2 then
               and_then (case kill w2 of (r, w3, evs3) \<Rightarrow> (r, w3, evs @ evs3))
                 (\<lambda>_ w3. (Returns (), w3, [SchedulerEnter (heartbeat_interval w3)]))
             else (Returns (), w2, evs @ [SchedulerEnter (heartbeat_interval w2)]))
          else (Raises e, w1, evs)
      | (Blocks, w1, evs) \<Rightarrow> (Blocks, w1, evs))"

text \<open>
  The ticks that \<^verbatim>\<open>self._hb_scheduler.run()\<close> executes, one per element of the list of
  post outcomes: a tick that returns has scheduled the next one, a tick that raises ends
  the loop. \<open>Returns\<close> means the heartbeat is still scheduled after these ticks.
\<close>

fun heartbeat_ticks :: "ClusterWorker \<Rightarrow> exn option list \<Rightarrow> unit result" where
  "heartbeat_ticks w [] = (Returns (), w, [])"
| "heartbeat_ticks w (post_outcome # outcomes) =
     (case run_heartbeat w post_outcome of
        (Returns _, w1, evs) \<Rightarrow>
          (case heartbeat_ticks w1 outcomes of (r, w2, evs2) \<Rightarrow> (r, w2, evs @ evs2))
      | (r, w1, evs) \<Rightarrow> (r, w1, evs))"

text \<open>The number of posts that failed at the transport level since the last other outcome.\<close>

definition trailing_failures :: "exn option list \<Rightarrow> nat" where
  "trailing_failures outcomes =
     length (takeWhile (\<lambda>p. case p of None \<Rightarrow> False | Some e \<Rightarrow> is_transport_error e)
               (rev outcomes))"

subsection \<open>Notifications to the manager\<close>

definition notify_manager_of_state_change ::
  "ClusterWorker \<Rightarrow> WorkerState \<Rightarrow> exn option \<Rightarrow> unit result" where
  "notify_manager_of_state_change w new_state put_outcome =
     (case manager_api w of
        None \<Rightarrow> (Raises AttributeError, w, [])
      | Some api \<Rightarrow>
          (case put_outcome of
             None \<Rightarrow> (Returns (), w, [PutState api (worker_id w) new_state])
           | Some e \<Rightarrow> (Raises e, w, [PutState api (worker_id w) new_state])))"

definition is_manager_responsive :: "ClusterWorker \<Rightarrow> exn option \<Rightarrow> bool result" where
  "is_manager_responsive w get_outcome =
     (case manager_api w of
        None \<Rightarrow> (Raises AttributeError, w, [])
      | Some api \<Rightarrow>
          (case get_outcome of
             None \<Rightarrow> (Returns True, w, [GetManager api])
           | Some e \<Rightarrow>
               if is_transport_error e then (Returns False, w, [GetManager api])
               else (Raises e, w, [GetManager api])))"

definition send_manager_idle_notification ::
  "ClusterWorker \<Rightarrow> exn option \<Rightarrow> exn option \<Rightarrow> unit result" where
  "send_manager_idle_notification w get_outcome put_outcome =
     and_then (is_manager_responsive w get_outcome)
       (\<lambda>responsive w1.
          if \<not> responsive then (Returns (), w1, [])
          else notify_manager_of_state_change w1 IDLE put_outcome)"

definition disconnect_from_manager ::
  "ClusterWorker \<Rightarrow> exn option \<Rightarrow> exn option \<Rightarrow> unit result" where
  "disconnect_from_manager w get_outcome put_outcome =
     and_then (is_manager_responsive (w\<lparr>is_alive := False\<rparr>) get_outcome)
       (\<lambda>responsive w1.
          if \<not> responsive then (Returns (), w1, [])
          else notify_manager_of_state_change w1 DISCONNECTED put_outcome)"

text \<open>
  \<^verbatim>\<open>connect_to_manager(manager_url=None)\<close>. \<open>post_outcome\<close> is how \<^verbatim>\<open>self._network.post\<close>
  ends, \<open>response_worker_id\<close> what \<^verbatim>\<open>int(response.json().get('worker_id'))\<close> evaluates to:
  an integer, or the exception it raises (\<open>TypeError\<close> when the response has no
  \<^verbatim>\<open>worker_id\<close>). \<^verbatim>\<open>manager_url or 'localhost:43000'\<close> takes the default for \<^verbatim>\<open>None\<close> and
  for the empty string. The three assignments before the post stay when the post or the
  reading of the response raises.
\<close>

definition connect_to_manager ::
  "ClusterWorker \<Rightarrow> string option \<Rightarrow> exn option \<Rightarrow> exn + int \<Rightarrow> unit result" where
  "connect_to_manager w manager_url_arg post_outcome response_worker_id =
     (let url = (case manager_url_arg of
                   None \<Rightarrow> ''localhost:43000''
                 | Some u \<Rightarrow> if u = [] then ''localhost:43000'' else u);
          w1 = w\<lparr>is_alive := True\<rparr>;
          w2 = w1\<lparr>manager_url := Some url\<rparr>;
          w3 = w2\<lparr>manager_api := manager_url w2\<rparr>;
          posted = [PostConnect url (host w3) (port w3) (num_executors w3)]
      in case post_outcome of
           Some e \<Rightarrow> (Raises e, w3, posted)
         | None \<Rightarrow>
             (case response_worker_id of
                Inl e \<Rightarrow> (Raises e, w3, posted)
              | Inr n \<Rightarrow>
                  (Returns (), w3\<lparr>worker_id := Some n\<rparr>,
                   posted @ [AddTeardownCallback (DoBuildTeardownAndReset (Some 30)),
                             AddTeardownCallback DisconnectFromManager])))"

subsection \<open>Build setup\<close>

definition setup_build :: "ClusterWorker \<Rightarrow> int \<Rightarrow> params \<Rightarrow> int \<Rightarrow> unit result" where
  "setup_build w build_id project_type_params build_executor_start_index =
     (let w1 = w\<lparr>current_build_id := Some build_id\<rparr>;
          w2 = w1\<lparr>build_teardown_coin := Some (SingleUseCoin False)\<rparr>;
          w3 = w2\<lparr>project_type := Some (create_project_type project_type_params)\<rparr>
      in if \<not> full w3 then (Raises RuntimeError, w3, [])
         else (Returns (), w3,
               [ThreadStart (AsyncSetupBuild (idle_executors w3) project_type_params
                               build_executor_start_index)]))"

text \<open>The loop \<^verbatim>\<open>for executor in executors: executor.configure_project_type(...)\<close>.\<close>

fun configure_executors ::
  "SubjobExecutor list \<Rightarrow> params \<Rightarrow> (SubjobExecutor \<Rightarrow> exn option) \<Rightarrow> exn option \<times> event list" where
  "configure_executors [] project_type_params configure_outcome = (None, [])"
| "configure_executors (executor # executors) project_type_params configure_outcome =
     (case configure_outcome executor of
        Some e \<Rightarrow> (Some e, [ExecutorConfigure executor project_type_params])
      | None \<Rightarrow>
          (case configure_executors executors project_type_params configure_outcome of
             (r, evs) \<Rightarrow> (r, ExecutorConfigure executor project_type_params # evs)))"

text \<open>The body of the \<^verbatim>\<open>try\<close> block of \<^verbatim>\<open>_async_setup_build\<close>: the exception it ends with, if any.\<close>

definition setup_steps ::
  "ClusterWorker \<Rightarrow> SubjobExecutor list \<Rightarrow> params \<Rightarrow> exn option
     \<Rightarrow> (SubjobExecutor \<Rightarrow> exn option) \<Rightarrow> exn option \<Rightarrow> exn option \<times> event list" where
  "setup_steps w executors project_type_params fetch_outcome configure_outcome run_outcome =
     (case project_type w of
        None \<Rightarrow> (Some AttributeError, [])
      | Some pt \<Rightarrow>
          (case fetch_outcome of
             Some e \<Rightarrow> (Some e, [FetchProject pt])
           | None \<Rightarrow>
               (case configure_executors executors project_type_params configure_outcome of
                  (Some e, evs) \<Rightarrow> (Some e, FetchProject pt # evs)
                | (None, evs) \<Rightarrow>
                    (run_outcome, FetchProject pt # evs @ [RunJobConfigSetup pt]))))"

definition async_setup_build ::
  "ClusterWorker \<Rightarrow> SubjobExecutor list \<Rightarrow> params \<Rightarrow> int \<Rightarrow> exn option
     \<Rightarrow> (SubjobExecutor \<Rightarrow> exn option) \<Rightarrow> exn option \<Rightarrow> exn option \<Rightarrow> unit result" where
  "async_setup_build w executors project_type_params build_executor_start_index
       fetch_outcome configure_outcome run_outcome put_outcome =
     (let w1 = w\<lparr>base_executor_index := Some build_executor_start_index\<rparr> in
      case setup_steps w1 executors project_type_params fetch_outcome configure_outcome
             run_outcome of
        (Some e, evs) \<Rightarrow>
          if e = SetupFailureError then
            (case notify_manager_of_state_change w1 SETUP_FAILED put_outcome of
               (r, w2, evs2) \<Rightarrow> (r, w2, evs @ evs2))
          else (Raises e, w1, evs)
      | (None, evs) \<Rightarrow>
          (case notify_manager_of_state_change w1 SETUP_COMPLETED put_outcome of
             (r, w2, evs2) \<Rightarrow> (r, w2, evs @ evs2)))"

subsection \<open>Build teardown\<close>

definition teardown_build :: "ClusterWorker \<Rightarrow> int option \<Rightarrow> unit result" where
  "teardown_build w build_id =
     (if current_build_id w = None then (Raises BadRequestError, w, [])
      else if build_id \<noteq> None \<and> build_id \<noteq> current_build_id w then
        (Raises BadRequestError, w, [])
      else (Returns (), w, [ThreadStart AsyncTeardownBuild]))"

text \<open>
  \<^verbatim>\<open>_do_build_teardown_and_reset(timeout=None)\<close>. The condition of the early return is
  evaluated left to right: a coin that is there is spent before \<^verbatim>\<open>self._project_type\<close>
  is looked at. \<open>teardown_outcome\<close> is how \<^verbatim>\<open>project_type.teardown_build\<close> ends.
\<close>

definition do_build_teardown_and_reset ::
  "ClusterWorker \<Rightarrow> int option \<Rightarrow> exn option \<Rightarrow> unit result" where
  "do_build_teardown_and_reset w timeout teardown_outcome =
     (let kills = map ExecutorKill (executors_values w) in
      case build_teardown_coin w of
        None \<Rightarrow> (Returns (), w, kills)
      | Some coin \<Rightarrow>
          (let (spent_now, coin') = spend coin;
               w1 = w\<lparr>build_teardown_coin := Some coin'\<rparr>
           in if \<not> spent_now then (Returns (), w1, kills)
              else
                (case project_type w1 of
                   None \<Rightarrow> (Returns (), w1, kills)
                 | Some pt \<Rightarrow>
                     (case teardown_outcome of
                        Some e \<Rightarrow> (Raises e, w1, kills @ [ProjectTeardownBuild pt timeout])
                      | None \<Rightarrow>
                          (Returns (),
                           w1\<lparr>current_build_id := None, project_type := None,
                              base_executor_index := None\<rparr>,
                           kills @ [ProjectTeardownBuild pt timeout])))))"

text \<open>
  \<^verbatim>\<open>while not self._idle_executors.full(): time.sleep(1)\<close>. While this thread sleeps the
  other threads run: the list gives, for each sleep, what they do to the worker meanwhile.
  When the list is used up and the queue is still not full, the loop has not returned.
\<close>

fun wait_for_idle_executors ::
  "ClusterWorker \<Rightarrow> (ClusterWorker \<Rightarrow> ClusterWorker) list \<Rightarrow> unit result" where
  "wait_for_idle_executors w [] = (if full w then (Returns (), w, []) else (Blocks, w, []))"
| "wait_for_idle_executors w (others # schedule) =
     (if full w then (Returns (), w, [])
      else (case wait_for_idle_executors (others w) schedule of
              (r, w', evs) \<Rightarrow> (r, w', Sleep 1 # evs)))"

definition async_teardown_build ::
  "ClusterWorker \<Rightarrow> exn option \<Rightarrow> (ClusterWorker \<Rightarrow> ClusterWorker) list
     \<Rightarrow> exn option \<Rightarrow> exn option \<Rightarrow> unit result" where
  "async_teardown_build w teardown_outcome schedule get_outcome put_outcome =
     and_then (do_build_teardown_and_reset w None teardown_outcome)
       (\<lambda>_ w1. and_then (wait_for_idle_executors w1 schedule)
          (\<lambda>_ w2. send_manager_idle_notification w2 get_outcome put_outcome))"

text \<open>The worker as the \<open>k\<close>-th poll of the waiting loop sees it.\<close>

definition poll_state ::
  "ClusterWorker \<Rightarrow> (ClusterWorker \<Rightarrow> ClusterWorker) list \<Rightarrow> nat \<Rightarrow> ClusterWorker" where
  "poll_state w schedule k = fold (\<lambda>others v. others v) (take k schedule) w"

text \<open>Several calls of \<^verbatim>\<open>_do_build_teardown_and_reset\<close>, one after the other, whatever each returns or raises.\<close>

fun teardown_calls ::
  "ClusterWorker \<Rightarrow> (int option \<times> exn option) list \<Rightarrow> ClusterWorker \<times> event list" where
  "teardown_calls w [] = (w, [])"
| "teardown_calls w ((timeout, teardown_outcome) # calls) =
     (case do_build_teardown_and_reset w timeout teardown_outcome of
        (r, w1, evs) \<Rightarrow>
          (case teardown_calls w1 calls of (w2, evs2) \<Rightarrow> (w2, evs @ evs2)))"

fun is_project_teardown :: "event \<Rightarrow> bool" where
  "is_project_teardown (ProjectTeardownBuild pt timeout) = True"
| "is_project_teardown ev = False"

subsection \<open>Subjobs\<close>

text \<open>The return value \<^verbatim>\<open>{'executor_id': executor.id}\<close> is a dict with one key.\<close>

definition start_working_on_subjob ::
  "ClusterWorker \<Rightarrow> int \<Rightarrow> int \<Rightarrow> string list \<Rightarrow> (string \<times> int) list result" where
  "start_working_on_subjob w build_id subjob_id atomic_commands =
     (if Some build_id \<noteq> current_build_id w then (Raises BadRequestError, w, [])
      else
        (case idle_executors w of
           [] \<Rightarrow> (Blocks, w, [])
         | executor # rest \<Rightarrow>
             (Returns [(''executor_id'', executor_id executor)],
              w\<lparr>idle_executors := rest\<rparr>,
              [QueueGet executor,
               ThreadStart (ExecuteSubjob build_id subjob_id executor atomic_commands)])))"

text \<open>
  \<^verbatim>\<open>_execute_subjob\<close>. \<open>execute_outcome\<close> is the results file that
  \<^verbatim>\<open>executor.execute_subjob\<close> returns, or the exception it raises; \<open>open_outcome\<close> and
  \<open>post_outcome\<close> are how \<^verbatim>\<open>open(results_file, 'rb')\<close> and the upload end. There is no
  \<^verbatim>\<open>try\<close> in the method: an exception ends it where it is raised. \<^verbatim>\<open>Queue.put\<close> blocks
  while the queue is full.
\<close>

definition execute_subjob ::
  "ClusterWorker \<Rightarrow> int \<Rightarrow> int \<Rightarrow> SubjobExecutor \<Rightarrow> string list
     \<Rightarrow> exn + string \<Rightarrow> exn option \<Rightarrow> exn option \<Rightarrow> unit result" where
  "execute_subjob w build_id subjob_id executor atomic_commands
       execute_outcome open_outcome post_outcome =
     (let started = [AnalyticsStart build_id subjob_id (executor_id executor),
                     ExecutorExecute executor build_id subjob_id atomic_commands
                       (base_executor_index w)]
      in case execute_outcome of
           Inl e \<Rightarrow> (Raises e, w, started)
         | Inr results_file \<Rightarrow>
             (let finished =
                    started @ [AnalyticsFinish build_id subjob_id (executor_id executor)]
              in case manager_api w of
                   None \<Rightarrow> (Raises AttributeError, w, finished)
                 | Some api \<Rightarrow>
                     (case open_outcome of
                        Some e \<Rightarrow> (Raises e, w, finished @ [OpenFile results_file])
                      | None \<Rightarrow>
                          if full w then (Blocks, w, finished @ [OpenFile results_file])
                          else
                            (case post_outcome of None \<Rightarrow> Returns () | Some e \<Rightarrow> Raises e,
                             w\<lparr>idle_executors := idle_executors w @ [executor]\<rparr>,
                             finished
                             @ [OpenFile results_file, QueuePut executor,
                                PostResult api build_id subjob_id (executor_id executor)
                                  results_file]))))"

text \<open>The releases and the uploads among the calls of a thread.\<close>

fun is_put_or_post :: "event \<Rightarrow> bool" where
  "is_put_or_post (QueuePut executor) = True"
| "is_put_or_post (PostResult api build_id subjob_id eid results_file) = True"
| "is_put_or_post ev = False"

subsection \<open>Sequences of operations\<close>

text \<open>
  The public operations and the bodies of the threads they start, each with the outcomes
  of the collaborator calls it makes. While the teardown thread waits, other subjob
  threads put their executors back: \<open>OpAsyncTeardownBuild\<close> lists them per sleep.
\<close>

datatype op =
    OpConnectToManager "string option" "exn option" "exn + int"
  | OpSetupBuild int params int
  | OpAsyncSetupBuild "SubjobExecutor list" params int "exn option"
      "SubjobExecutor \<Rightarrow> exn option" "exn option" "exn option"
  | OpStartWorkingOnSubjob int int "string list"
  | OpExecuteSubjob int int SubjobExecutor "string list" "exn + string" "exn option"
      "exn option"
  | OpTeardownBuild "int option"
  | OpAsyncTeardownBuild "exn option" "SubjobExecutor list list" "exn option" "exn option"
  | OpDoBuildTeardownAndReset "int option" "exn option"
  | OpDisconnectFromManager "exn option" "exn option"
  | OpRunHeartbeat "exn option"
  | OpKill

definition put_back :: "SubjobExecutor list \<Rightarrow> ClusterWorker \<Rightarrow> ClusterWorker" where
  "put_back executors w = w\<lparr>idle_executors := idle_executors w @ executors\<rparr>"

definition forget :: "'a result \<Rightarrow> ClusterWorker \<times> event list" where
  "forget res = snd res"

fun apply_op :: "ClusterWorker \<Rightarrow> op \<Rightarrow> ClusterWorker \<times> event list" where
  "apply_op w (OpConnectToManager url post wid) = forget (connect_to_manager w url post wid)"
| "apply_op w (OpSetupBuild b p i) = forget (setup_build w b p i)"
| "apply_op w (OpAsyncSetupBuild es p i f c r n) = forget (async_setup_build w es p i f c r n)"
| "apply_op w (OpStartWorkingOnSubjob b s cmds) = forget (start_working_on_subjob w b s cmds)"
| "apply_op w (OpExecuteSubjob b s e cmds file opened uploaded) =
     forget (execute_subjob w b s e cmds file opened uploaded)"
| "apply_op w (OpTeardownBuild b) = forget (teardown_build w b)"
| "apply_op w (OpAsyncTeardownBuild t released g n) =
     forget (async_teardown_build w t (map put_back released) g n)"
| "apply_op w (OpDoBuildTeardownAndReset timeout t) =
     forget (do_build_teardown_and_reset w timeout t)"
| "apply_op w (OpDisconnectFromManager g n) = forget (disconnect_from_manager w g n)"
| "apply_op w (OpRunHeartbeat h) = forget (run_heartbeat w h)"
| "apply_op w OpKill = forget (kill w)"

fun run_ops :: "ClusterWorker \<Rightarrow> op list \<Rightarrow> ClusterWorker \<times> event list" where
  "run_ops w [] = (w, [])"
| "run_ops w (operation # ops) =
     (case apply_op w operation of
        (w1, evs) \<Rightarrow> (case run_ops w1 ops of (w2, evs2) \<Rightarrow> (w2, evs @ evs2)))"

text \<open>The id that an operation registers: that of a registration whose post returned it.\<close>

fun registered_id :: "op \<Rightarrow> int option" where
  "registered_id (OpConnectToManager url None (Inr n)) = Some n"
| "registered_id operation = None"

subsection \<open>An example worker\<close>

text \<open>A worker with two executors, as the constructor leaves it.\<close>

definition worker_example :: ClusterWorker where
  "worker_example = init 43001 ''worker-a'' 2 3 5"

section \<open>Properties\<close>

subsection \<open>Auxiliary facts\<close>

lemma and_then_Returns [simp]:
  "and_then (Returns x, w, evs) rest = (case rest x w of (r, w', evs') \<Rightarrow> (r, w', evs @ evs'))"
  by (simp add: and_then_def)

lemma and_then_Raises [simp]: "and_then (Raises e, w, evs) rest = (Raises e, w, evs)"
  by (simp add: and_then_def)

lemma and_then_Blocks [simp]: "and_then (Blocks, w, evs) rest = (Blocks, w, evs)"
  by (simp add: and_then_def)

lemma wait_frame:
  "\<forall>g \<in> set schedule. \<forall>v. f (g v) = f v \<Longrightarrow>
   f (fst (snd (wait_for_idle_executors w schedule))) = f w"
proof (induction schedule arbitrary: w)
  case Nil
  then show ?case by simp
next
  case (Cons g schedule)
  have "f (fst (snd (wait_for_idle_executors (g w) schedule))) = f (g w)"
    using Cons by simp
  moreover have "f (g w) = f w"
    using Cons.prems by simp
  ultimately show ?case
    by (cases "wait_for_idle_executors (g w) schedule") simp
qed

lemma do_teardown_worker_id:
  "worker_id (fst (snd (do_build_teardown_and_reset w timeout t))) = worker_id w"
  by (simp add: do_build_teardown_and_reset_def spend_def Let_def split: option.splits)

lemma do_teardown_executors:
  "executors_by_id (fst (snd (do_build_teardown_and_reset w timeout t))) = executors_by_id w"
  by (simp add: do_build_teardown_and_reset_def spend_def Let_def split: option.splits)

lemma send_idle_worker:
  "fst (snd (send_manager_idle_notification w g n)) = w"
  by (simp add: send_manager_idle_notification_def is_manager_responsive_def
      notify_manager_of_state_change_def split: option.splits)

lemma async_teardown_frame:
  assumes "\<forall>g \<in> set schedule. \<forall>v. f (g v) = f v"
    and "\<And>v timeout. f (fst (snd (do_build_teardown_and_reset v timeout t))) = f v"
  shows "f (fst (snd (async_teardown_build w t schedule g n))) = f w"
proof (cases "do_build_teardown_and_reset w None t")
  case (fields r w1 evs1)
  have w1: "f w1 = f w" using assms(2)[of w None] fields by simp
  show ?thesis
  proof (cases r)
    case (Returns u)
    obtain r2 w2 evs2 where wt: "wait_for_idle_executors w1 schedule = (r2, w2, evs2)"
      by (cases "wait_for_idle_executors w1 schedule")
    have w2: "f w2 = f w1" using wait_frame[OF assms(1), of w1] wt by simp
    show ?thesis
    proof (cases r2)
      case (Returns u2)
      obtain r3 w3 evs3 where s: "send_manager_idle_notification w2 g n = (r3, w3, evs3)"
        by (cases "send_manager_idle_notification w2 g n")
      have "w3 = w2" using send_idle_worker[of w2 g n] s by simp
      then show ?thesis using fields \<open>r = Returns u\<close> wt Returns s w1 w2
        by (simp add: async_teardown_build_def)
    qed (use fields \<open>r = Returns u\<close> wt w1 w2 in \<open>simp_all add: async_teardown_build_def\<close>)
  qed (use fields w1 in \<open>simp_all add: async_teardown_build_def\<close>)
qed

lemma put_back_frame:
  "worker_id (put_back es v) = worker_id v" "executors_by_id (put_back es v) = executors_by_id v"
  by (simp_all add: put_back_def)

lemma execute_subjob_frame:
  "worker_id (fst (snd (execute_subjob w b s e cmds file opened uploaded))) = worker_id w"
  "executors_by_id (fst (snd (execute_subjob w b s e cmds file opened uploaded)))
     = executors_by_id w"
  by (simp_all add: execute_subjob_def Let_def split: sum.splits option.splits)

lemma connect_to_manager_executors:
  "executors_by_id (fst (snd (connect_to_manager w url post wid))) = executors_by_id w"
  by (simp add: connect_to_manager_def Let_def split: sum.splits option.splits)

lemma connect_to_manager_unregistered:
  "registered_id (OpConnectToManager url post wid) = None \<Longrightarrow>
   worker_id (fst (snd (connect_to_manager w url post wid))) = worker_id w"
  by (cases post; cases wid) (simp_all add: connect_to_manager_def Let_def)

lemma apply_op_executors:
  "executors_by_id (fst (apply_op w operation)) = executors_by_id w"
proof (cases operation)
  case (OpAsyncTeardownBuild t released g n)
  then show ?thesis
    using async_teardown_frame[of "map put_back released" executors_by_id t w g n]
    by (auto simp: forget_def put_back_frame do_teardown_executors)
next
  case (OpDoBuildTeardownAndReset timeout t)
  then show ?thesis by (simp add: forget_def do_teardown_executors)
next
  case (OpConnectToManager url post wid)
  then show ?thesis by (simp add: forget_def connect_to_manager_executors)
next
  case (OpExecuteSubjob b s e cmds outcome opened uploaded)
  then show ?thesis by (simp add: forget_def execute_subjob_frame)
qed (auto simp: forget_def setup_build_def async_setup_build_def
      start_working_on_subjob_def teardown_build_def
      disconnect_from_manager_def run_heartbeat_def kill_def Let_def
      notify_manager_of_state_change_def is_manager_responsive_def
      send_heartbeat_to_manager_def
      split: option.splits prod.splits list.splits if_splits outcome.splits)

lemma apply_op_worker_id:
  "registered_id operation = None \<Longrightarrow>
   worker_id (fst (apply_op w operation)) = worker_id w"
proof (cases operation)
  case (OpAsyncTeardownBuild t released g n)
  then show ?thesis
    using async_teardown_frame[of "map put_back released" worker_id t w g n]
    by (auto simp: forget_def put_back_frame do_teardown_worker_id)
next
  case (OpDoBuildTeardownAndReset timeout t)
  then show ?thesis by (simp add: forget_def do_teardown_worker_id)
next
  case (OpConnectToManager url post wid)
  assume "registered_id operation = None"
  then show ?thesis
    using OpConnectToManager connect_to_manager_unregistered[of url post wid w]
    by (simp add: forget_def)
next
  case (OpExecuteSubjob b s e cmds outcome opened uploaded)
  then show ?thesis by (simp add: forget_def execute_subjob_frame)
qed (auto simp: forget_def setup_build_def async_setup_build_def
      start_working_on_subjob_def teardown_build_def
      disconnect_from_manager_def run_heartbeat_def kill_def Let_def
      notify_manager_of_state_change_def is_manager_responsive_def
      send_heartbeat_to_manager_def
      split: option.splits prod.splits list.splits if_splits outcome.splits)

lemma run_ops_append:
  "run_ops w (ops1 @ ops2) =
     (case run_ops w ops1 of (w1, evs1) \<Rightarrow>
        (case run_ops w1 ops2 of (w2, evs2) \<Rightarrow> (w2, evs1 @ evs2)))"
  by (induction ops1 arbitrary: w) (auto split: prod.splits)

lemma run_ops_executors: "executors_by_id (fst (run_ops w ops)) = executors_by_id w"
proof (induction ops arbitrary: w)
  case Nil
  then show ?case by simp
next
  case (Cons operation ops)
  obtain w1 evs where a: "apply_op w operation = (w1, evs)"
    by (cases "apply_op w operation")
  have "executors_by_id w1 = executors_by_id w"
    using apply_op_executors[of w operation] a by simp
  then show ?case
    using Cons[of w1] a by (cases "run_ops w1 ops") simp
qed

lemma run_ops_worker_id:
  "\<forall>operation \<in> set ops. registered_id operation = None \<Longrightarrow>
   worker_id (fst (run_ops w ops)) = worker_id w"
proof (induction ops arbitrary: w)
  case Nil
  then show ?case by simp
next
  case (Cons operation ops)
  obtain w1 evs where a: "apply_op w operation = (w1, evs)"
    by (cases "apply_op w operation")
  have "worker_id w1 = worker_id w"
    using apply_op_worker_id[of operation w] a Cons.prems by simp
  then show ?case
    using Cons.IH[of w1] Cons.prems a by (cases "run_ops w1 ops") simp
qed

lemma update_fresh: "k \<notin> fst ` set al \<Longrightarrow> AList.update k v al = al @ [(k, v)]"
  by (induction al) auto

lemma fold_update_fresh:
  "distinct ids \<Longrightarrow> set ids \<inter> fst ` set al = {} \<Longrightarrow>
   fold (\<lambda>i. AList.update i (g i)) ids al = al @ map (\<lambda>i. (i, g i)) ids"
proof (induction ids arbitrary: al)
  case Nil
  then show ?case by simp
next
  case (Cons i ids)
  have fresh: "i \<notin> fst ` set al" using Cons.prems by auto
  have "set ids \<inter> fst ` set (al @ [(i, g i)]) = {}"
    using Cons.prems by auto
  then show ?case
    using Cons.IH[of "al @ [(i, g i)]"] Cons.prems fresh by (simp add: update_fresh)
qed

lemma init_loop_eq:
  "init_loop ids (queue, by_id) =
     (queue @ map SubjobExecutor ids, fold (\<lambda>i. AList.update i (SubjobExecutor i)) ids by_id)"
  by (induction ids arbitrary: queue by_id) simp_all

lemma distinct_range_py: "distinct (range_py n)"
  by (simp add: range_py_def distinct_map)

lemma set_range_py: "set (range_py n) = {0..<n}"
proof -
  have "int ` {0..<nat n} = {0..<int (nat n)}"
    using image_int_atLeastLessThan[of 0 "nat n"] by simp
  moreover have "{0..<int (nat n)} = {0..<n}"
    by auto
  ultimately show ?thesis by (simp add: range_py_def)
qed

lemma init_eq:
  "init p h n t i =
     \<lparr> port = p, host = h, is_alive = True, worker_id = None,
       num_executors = n, idle_executors = map SubjobExecutor (range_py n),
       executors_by_id = map (\<lambda>k. (k, SubjobExecutor k)) (range_py n),
       manager_url = None, manager_api = None, project_type = None,
       current_build_id = None, build_teardown_coin = None, base_executor_index = None,
       heartbeat_failure_count = 0, heartbeat_failure_threshold = t,
       heartbeat_interval = i \<rparr>"
  by (simp add: init_def init_loop_eq fold_update_fresh distinct_range_py)

lemma range_py_2: "range_py 2 = [0, 1]"
  by (simp add: range_py_def upt_rec)

lemma worker_example_eq:
  "worker_example =
     \<lparr> port = 43001, host = ''worker-a'', is_alive = True, worker_id = None,
       num_executors = 2, idle_executors = [SubjobExecutor 0, SubjobExecutor 1],
       executors_by_id = [(0, SubjobExecutor 0), (1, SubjobExecutor 1)],
       manager_url = None, manager_api = None, project_type = None,
       current_build_id = None, build_teardown_coin = None, base_executor_index = None,
       heartbeat_failure_count = 0, heartbeat_failure_threshold = 3,
       heartbeat_interval = 5 \<rparr>"
  by (simp add: worker_example_def init_eq range_py_2)

lemma do_teardown_kills_first:
  "\<exists>rest. snd (snd (do_build_teardown_and_reset w timeout t)) =
            map ExecutorKill (executors_values w) @ rest
          \<and> (rest = [] \<or> (\<exists>pt. rest = [ProjectTeardownBuild pt timeout]))"
  by (simp add: do_build_teardown_and_reset_def spend_def Let_def split: option.splits)

subsection \<open>WorkerState literals\<close>

text \<open>
  C9. The values of the five WorkerState members are exactly the strings DISCONNECTED,
  SHUTDOWN, IDLE, SETUP_COMPLETE (for the member SETUP_COMPLETED) and SETUP_FAILED; the
  value of SETUP_COMPLETED is not the string SETUP_COMPLETED; and every member compares
  equal to its own string value.
\<close>

theorem WorkerState_literals:
  "WorkerState_value DISCONNECTED = ''DISCONNECTED''
   \<and> WorkerState_value SHUTDOWN = ''SHUTDOWN''
   \<and> WorkerState_value IDLE = ''IDLE''
   \<and> WorkerState_value SETUP_COMPLETED = ''SETUP_COMPLETE''
   \<and> WorkerState_value SETUP_COMPLETED \<noteq> ''SETUP_COMPLETED''
   \<and> WorkerState_value SETUP_FAILED = ''SETUP_FAILED''
   \<and> WorkerState_eq_str DISCONNECTED ''DISCONNECTED''
   \<and> WorkerState_eq_str SHUTDOWN ''SHUTDOWN''
   \<and> WorkerState_eq_str IDLE ''IDLE''
   \<and> WorkerState_eq_str SETUP_COMPLETED ''SETUP_COMPLETE''
   \<and> WorkerState_eq_str SETUP_FAILED ''SETUP_FAILED''
   \<and> WorkerState_eq_str member (WorkerState_value member)"
  by (simp add: WorkerState_eq_str_def)

subsection \<open>The executors of a worker\<close>

text \<open>
  C10. A worker constructed with \<open>num_executors = n\<close> holds the executors with the ids
  \<open>0, ..., n - 1\<close> (each id once; exactly \<open>n\<close> of them for \<open>n \<ge> 0\<close>), all of them in the
  idle queue. No sequence of operations (connect, setup, subjob start, teardown,
  disconnect, heartbeat, and the threads they start) changes \<open>executors_by_id\<close>, and the
  executors that \<^verbatim>\<open>_do_build_teardown_and_reset\<close> kills afterwards are the ones made by the
  constructor.
\<close>

theorem executors_fixed_at_construction:
  "executors_by_id (init p h n t i) = map (\<lambda>k. (k, SubjobExecutor k)) (range_py n)
   \<and> set (map fst (executors_by_id (init p h n t i))) = {0..<n}
   \<and> distinct (map fst (executors_by_id (init p h n t i)))
   \<and> (0 \<le> n \<longrightarrow> int (length (executors_by_id (init p h n t i))) = n)
   \<and> idle_executors (init p h n t i) = executors_values (init p h n t i)
   \<and> executors_by_id (fst (run_ops (init p h n t i) ops)) = executors_by_id (init p h n t i)
   \<and> take (length (range_py n))
        (snd (snd (do_build_teardown_and_reset (fst (run_ops (init p h n t i) ops))
                     timeout teardown_outcome)))
       = map (\<lambda>k. ExecutorKill (SubjobExecutor k)) (range_py n)"
proof -
  let ?start = "init p h n t i"
  let ?later = "fst (run_ops ?start ops)"
  have by_id: "executors_by_id ?start = map (\<lambda>k. (k, SubjobExecutor k)) (range_py n)"
    by (simp add: init_eq)
  have keys: "map fst (executors_by_id ?start) = range_py n"
    by (simp add: by_id comp_def)
  have len: "0 \<le> n \<longrightarrow> int (length (executors_by_id ?start)) = n"
    by (simp add: by_id range_py_def)
  have idle: "idle_executors ?start = executors_values ?start"
    by (simp add: init_eq executors_values_def comp_def)
  have frame: "executors_by_id ?later = executors_by_id ?start"
    by (rule run_ops_executors)
  have vals: "executors_values ?later = map SubjobExecutor (range_py n)"
    by (simp add: executors_values_def frame by_id comp_def)
  obtain rest where
    "snd (snd (do_build_teardown_and_reset ?later timeout teardown_outcome)) =
       map ExecutorKill (executors_values ?later) @ rest"
    using do_teardown_kills_first[of ?later timeout teardown_outcome] by blast
  then have kills:
    "take (length (range_py n))
       (snd (snd (do_build_teardown_and_reset ?later timeout teardown_outcome)))
     = map (\<lambda>k. ExecutorKill (SubjobExecutor k)) (range_py n)"
    by (simp add: vals comp_def)
  have dense: "set (map fst (executors_by_id ?start)) = {0..<n}"
    by (simp only: keys set_range_py)
  have dist: "distinct (map fst (executors_by_id ?start))"
    by (simp only: keys distinct_range_py)
  show ?thesis
    by (intro conjI by_id dense dist len idle frame kills)
qed

theorem executors_fixed_at_construction_witness:
  "(0::int) \<le> 2
   \<and> executors_by_id worker_example = [(0, SubjobExecutor 0), (1, SubjobExecutor 1)]
   \<and> executors_by_id
        (fst (run_ops worker_example
               [OpConnectToManager None None (Inr 7), OpSetupBuild 42 [(''type'', ''git'')] 0,
                OpStartWorkingOnSubjob 42 3 [''echo a''], OpTeardownBuild (Some 42),
                OpDoBuildTeardownAndReset None None]))
       = [(0, SubjobExecutor 0), (1, SubjobExecutor 1)]"
  using executors_fixed_at_construction[of 43001 "''worker-a''" 2 3 5
      "[OpConnectToManager None None (Inr 7), OpSetupBuild 42 [(''type'', ''git'')] 0,
        OpStartWorkingOnSubjob 42 3 [''echo a''], OpTeardownBuild (Some 42),
        OpDoBuildTeardownAndReset None None]"]
  by (simp add: worker_example_def range_py_2)

subsection \<open>Rejected teardown requests\<close>

text \<open>
  C3. \<^verbatim>\<open>teardown_build(build_id)\<close> raises \<open>BadRequestError\<close> if and only if
  \<open>current_build_id\<close> is \<open>None\<close>, or \<open>build_id\<close> is given and differs from
  \<open>current_build_id\<close>. It raises nothing else. A rejected call leaves the worker as it
  was and makes no call at all: no thread is started and \<^verbatim>\<open>project_type.teardown_build\<close> is
  not called. An accepted call starts the teardown thread and changes nothing itself.
\<close>

theorem teardown_build_rejects:
  "(fst (teardown_build w build_id) = Raises BadRequestError
      \<longleftrightarrow> (current_build_id w = None
           \<or> (build_id \<noteq> None \<and> build_id \<noteq> current_build_id w)))
   \<and> (\<forall>e. fst (teardown_build w build_id) = Raises e
          \<longrightarrow> teardown_build w build_id = (Raises BadRequestError, w, []))
   \<and> (fst (teardown_build w build_id) \<noteq> Raises BadRequestError
          \<longrightarrow> teardown_build w build_id = (Returns (), w, [ThreadStart AsyncTeardownBuild]))"
  by (simp add: teardown_build_def)

text \<open>
  The wrong-build scenario of the specification: build 42 is current, a teardown of build
  43 is rejected, a teardown of build 42 is accepted.
\<close>

theorem teardown_build_rejects_witness:
  "teardown_build (worker_example\<lparr>current_build_id := Some 42\<rparr>) (Some 43)
       = (Raises BadRequestError, worker_example\<lparr>current_build_id := Some 42\<rparr>, [])
   \<and> teardown_build (worker_example\<lparr>current_build_id := Some 42\<rparr>) (Some 42)
       = (Returns (), worker_example\<lparr>current_build_id := Some 42\<rparr>,
          [ThreadStart AsyncTeardownBuild])"
proof -
  let ?busy = "worker_example\<lparr>current_build_id := Some 42\<rparr>"
  note wrong = teardown_build_rejects[of ?busy "Some 43"]
  note right = teardown_build_rejects[of ?busy "Some 42"]
  have "fst (teardown_build ?busy (Some 43)) = Raises BadRequestError"
    using wrong[THEN conjunct1] by simp
  then have rejected: "teardown_build ?busy (Some 43) = (Raises BadRequestError, ?busy, [])"
    using wrong[THEN conjunct2, THEN conjunct1] by blast
  have "fst (teardown_build ?busy (Some 42)) \<noteq> Raises BadRequestError"
    using right[THEN conjunct1] by simp
  then have accepted:
    "teardown_build ?busy (Some 42) = (Returns (), ?busy, [ThreadStart AsyncTeardownBuild])"
    using right[THEN conjunct2, THEN conjunct2] by blast
  show ?thesis
    using rejected accepted by (rule conjI)
qed

subsection \<open>Teardown happens once per build\<close>

lemma do_teardown_coin_used:
  "build_teardown_coin (fst (snd (do_build_teardown_and_reset w timeout t))) = None
   \<or> build_teardown_coin (fst (snd (do_build_teardown_and_reset w timeout t)))
       = Some (SingleUseCoin True)"
  by (simp add: do_build_teardown_and_reset_def spend_def Let_def split: option.splits)

lemma do_teardown_after_spent:
  assumes "build_teardown_coin w = None \<or> build_teardown_coin w = Some (SingleUseCoin True)"
  shows "do_build_teardown_and_reset w timeout t
           = (Returns (), w, map ExecutorKill (executors_values w))"
proof -
  have "w\<lparr>build_teardown_coin := Some (SingleUseCoin True)\<rparr> = w"
    if "build_teardown_coin w = Some (SingleUseCoin True)"
    using that by (cases w) simp
  then show ?thesis
    using assms
    by (auto simp: do_build_teardown_and_reset_def spend_def Let_def)
qed

lemma teardown_calls_after_spent:
  assumes "build_teardown_coin w = None \<or> build_teardown_coin w = Some (SingleUseCoin True)"
  shows "teardown_calls w calls
           = (w, concat (replicate (length calls) (map ExecutorKill (executors_values w))))"
  using assms
proof (induction calls)
  case Nil
  then show ?case by simp
next
  case (Cons call calls)
  obtain timeout t where call: "call = (timeout, t)"
    by (cases call)
  show ?case
    using Cons by (simp add: call do_teardown_after_spent)
qed

lemma do_teardown_values:
  "executors_values (fst (snd (do_build_teardown_and_reset w timeout t))) = executors_values w"
  by (simp add: executors_values_def do_teardown_executors)

lemma do_teardown_attributes:
  "snd (snd (do_build_teardown_and_reset w timeout t)) = map ExecutorKill (executors_values w)
   \<Longrightarrow> current_build_id (fst (snd (do_build_teardown_and_reset w timeout t))) = current_build_id w
     \<and> project_type (fst (snd (do_build_teardown_and_reset w timeout t))) = project_type w
     \<and> base_executor_index (fst (snd (do_build_teardown_and_reset w timeout t)))
         = base_executor_index w"
  by (auto simp: do_build_teardown_and_reset_def spend_def Let_def split: option.splits)

text \<open>
  C2. Take any number of calls of \<^verbatim>\<open>_do_build_teardown_and_reset\<close> one after the other,
  with any timeouts and whatever \<^verbatim>\<open>project_type.teardown_build\<close> does in each. The worker
  after all of them is the worker after the first one. Among all the calls made,
  \<^verbatim>\<open>project_type.teardown_build\<close> occurs at most once. Every call starts by killing every
  executor of \<open>executors_by_id\<close>, in order; the first call may go on to the project
  teardown, the later calls do nothing else. The current-build attributes change only in
  a call that reaches the project teardown.
\<close>

theorem teardown_and_reset_idempotent:
  "fst (teardown_calls w ((timeout, t) # calls)) = fst (teardown_calls w [(timeout, t)])
   \<and> fst (teardown_calls w [(timeout, t)]) = fst (snd (do_build_teardown_and_reset w timeout t))
   \<and> length (filter is_project_teardown (snd (teardown_calls w ((timeout, t) # calls)))) \<le> 1
   \<and> (\<exists>rest. snd (teardown_calls w ((timeout, t) # calls))
                = map ExecutorKill (executors_values w) @ rest
                  @ concat (replicate (length calls) (map ExecutorKill (executors_values w)))
              \<and> (rest = [] \<or> (\<exists>pt. rest = [ProjectTeardownBuild pt timeout]))
              \<and> (rest = [] \<longrightarrow>
                    current_build_id (fst (teardown_calls w [(timeout, t)])) = current_build_id w
                    \<and> project_type (fst (teardown_calls w [(timeout, t)])) = project_type w
                    \<and> base_executor_index (fst (teardown_calls w [(timeout, t)]))
                        = base_executor_index w))"
proof -
  obtain r w1 evs where first: "do_build_teardown_and_reset w timeout t = (r, w1, evs)"
    by (cases "do_build_teardown_and_reset w timeout t")
  have used: "build_teardown_coin w1 = None \<or> build_teardown_coin w1 = Some (SingleUseCoin True)"
    using do_teardown_coin_used[of w timeout t] first by simp
  have vals: "executors_values w1 = executors_values w"
    using do_teardown_values[of w timeout t] first by simp
  have later: "teardown_calls w1 calls
      = (w1, concat (replicate (length calls) (map ExecutorKill (executors_values w))))"
    using teardown_calls_after_spent[OF used, of calls] vals by simp
  obtain rest where rest: "evs = map ExecutorKill (executors_values w) @ rest"
      and shape: "rest = [] \<or> (\<exists>pt. rest = [ProjectTeardownBuild pt timeout])"
    using do_teardown_kills_first[of w timeout t] first by auto
  have no_teardown: "filter is_project_teardown (map ExecutorKill xs) = []" for xs
    by (induction xs) simp_all
  have no_teardown_later:
    "filter is_project_teardown (concat (replicate n (map ExecutorKill xs))) = []" for n xs
    by (induction n) (simp_all add: no_teardown)
  have one: "fst (teardown_calls w [(timeout, t)]) = w1"
    using first by simp
  have all: "teardown_calls w ((timeout, t) # calls)
      = (w1, map ExecutorKill (executors_values w) @ rest
             @ concat (replicate (length calls) (map ExecutorKill (executors_values w))))"
    using first later rest by simp
  have count: "length (filter is_project_teardown (snd (teardown_calls w ((timeout, t) # calls)))) \<le> 1"
    unfolding all using shape by (auto simp: no_teardown no_teardown_later)
  have attrs: "rest = [] \<longrightarrow>
      current_build_id w1 = current_build_id w \<and> project_type w1 = project_type w
      \<and> base_executor_index w1 = base_executor_index w"
    using do_teardown_attributes[of w timeout t] first rest by simp
  have same: "fst (teardown_calls w ((timeout, t) # calls)) = fst (teardown_calls w [(timeout, t)])"
    by (simp only: all one fst_conv)
  have single: "fst (teardown_calls w [(timeout, t)])
      = fst (snd (do_build_teardown_and_reset w timeout t))"
    by (simp only: one first fst_conv snd_conv)
  have events: "\<exists>rest. snd (teardown_calls w ((timeout, t) # calls))
                = map ExecutorKill (executors_values w) @ rest
                  @ concat (replicate (length calls) (map ExecutorKill (executors_values w)))
              \<and> (rest = [] \<or> (\<exists>pt. rest = [ProjectTeardownBuild pt timeout]))
              \<and> (rest = [] \<longrightarrow>
                    current_build_id (fst (teardown_calls w [(timeout, t)])) = current_build_id w
                    \<and> project_type (fst (teardown_calls w [(timeout, t)])) = project_type w
                    \<and> base_executor_index (fst (teardown_calls w [(timeout, t)]))
                        = base_executor_index w)"
    unfolding one all snd_conv using shape attrs by blast
  show ?thesis
    by (intro conjI same single count events)
qed

text \<open>
  Three calls on a worker that has build 42 set up: the first tears the build down and
  clears the attributes, the other two only kill the executors.
\<close>

theorem teardown_and_reset_idempotent_witness:
  "teardown_calls
     (worker_example\<lparr>current_build_id := Some 42,
        build_teardown_coin := Some (SingleUseCoin False),
        project_type := Some (ProjectType []), base_executor_index := Some 0\<rparr>)
     [(None, None), (Some 30, None), (None, Some (OtherError ''teardown''))]
   = (worker_example\<lparr>current_build_id := None,
        build_teardown_coin := Some (SingleUseCoin True),
        project_type := None, base_executor_index := None\<rparr>,
      [ExecutorKill (SubjobExecutor 0), ExecutorKill (SubjobExecutor 1),
       ProjectTeardownBuild (ProjectType []) None,
       ExecutorKill (SubjobExecutor 0), ExecutorKill (SubjobExecutor 1),
       ExecutorKill (SubjobExecutor 0), ExecutorKill (SubjobExecutor 1)])"
  using teardown_and_reset_idempotent[of
      "worker_example\<lparr>current_build_id := Some 42,
        build_teardown_coin := Some (SingleUseCoin False),
        project_type := Some (ProjectType []), base_executor_index := Some 0\<rparr>"
      None None "[(Some 30, None), (None, Some (OtherError ''teardown''))]"]
  by (simp add: worker_example_eq do_build_teardown_and_reset_def spend_def
      executors_values_def Let_def)

subsection \<open>The notification after build setup\<close>

lemma configure_executors_ok:
  "fst (configure_executors executors p conf) = None \<longleftrightarrow> (\<forall>e \<in> set executors. conf e = None)"
  by (induction executors) (auto split: option.splits prod.splits)

lemma configure_executors_events_ok:
  "\<forall>e \<in> set executors. conf e = None \<Longrightarrow>
   configure_executors executors p conf = (None, map (\<lambda>e. ExecutorConfigure e p) executors)"
  by (induction executors) (auto split: option.splits prod.splits)

lemma configure_executors_no_put:
  "PutState a i s \<notin> set (snd (configure_executors executors p conf))"
  by (induction executors) (auto split: option.splits prod.splits)

lemma setup_steps_no_put:
  "PutState a i s \<notin> set (snd (setup_steps w executors p fetch conf run))"
proof -
  have "PutState a i s \<notin> set evs"
    if "configure_executors executors p conf = (r, evs)" for r evs
    using configure_executors_no_put[of a i s executors p conf] that by simp
  then show ?thesis
    by (auto simp: setup_steps_def split: option.splits prod.splits)
qed

lemma setup_steps_ok:
  "fst (setup_steps w executors p fetch conf run) = None \<Longrightarrow>
   fetch = None \<and> (\<forall>e \<in> set executors. conf e = None) \<and> run = None
   \<and> (\<exists>pt. project_type w = Some pt
          \<and> snd (setup_steps w executors p fetch conf run)
              = FetchProject pt # map (\<lambda>e. ExecutorConfigure e p) executors
                @ [RunJobConfigSetup pt])"
proof -
  assume ok: "fst (setup_steps w executors p fetch conf run) = None"
  obtain r evs where c: "configure_executors executors p conf = (r, evs)"
    by (cases "configure_executors executors p conf")
  from ok c have pt: "project_type w \<noteq> None" and f: "fetch = None" and r: "r = None"
      and run: "run = None"
    by (auto simp: setup_steps_def split: option.splits)
  have all: "\<forall>e \<in> set executors. conf e = None"
    using configure_executors_ok[of executors p conf] c r by simp
  have "evs = map (\<lambda>e. ExecutorConfigure e p) executors"
    using configure_executors_events_ok[OF all, of p] c by simp
  then show ?thesis
    using pt f r run all c by (auto simp: setup_steps_def)
qed

text \<open>
  C5. If the setup thread sends \<open>SETUP_COMPLETED\<close>, then \<^verbatim>\<open>fetch_project\<close>,
  \<^verbatim>\<open>configure_project_type\<close> on every executor of the snapshot and
  \<^verbatim>\<open>run_job_config_setup\<close> have all returned, and the calls of the thread are exactly
  these, in this order, followed by the notification. If the steps end with
  \<open>SetupFailureError\<close>, a worker that is connected to a manager sends \<open>SETUP_FAILED\<close>
  after the steps it ran, and no \<open>SETUP_COMPLETED\<close>. If all steps return, a connected
  worker does send \<open>SETUP_COMPLETED\<close>.
\<close>

theorem async_setup_build_notifications:
  "(PutState api wid SETUP_COMPLETED
      \<in> set (snd (snd (async_setup_build w executors p idx fetch conf run put)))
    \<longrightarrow> fetch = None \<and> (\<forall>e \<in> set executors. conf e = None) \<and> run = None
        \<and> (\<exists>pt. project_type w = Some pt
              \<and> snd (snd (async_setup_build w executors p idx fetch conf run put))
                  = FetchProject pt # map (\<lambda>e. ExecutorConfigure e p) executors
                    @ [RunJobConfigSetup pt, PutState api wid SETUP_COMPLETED]))
   \<and> (fst (setup_steps (w\<lparr>base_executor_index := Some idx\<rparr>) executors p fetch conf run)
         = Some SetupFailureError
       \<and> manager_api w = Some api
    \<longrightarrow> snd (snd (async_setup_build w executors p idx fetch conf run put))
          = snd (setup_steps (w\<lparr>base_executor_index := Some idx\<rparr>) executors p fetch conf run)
            @ [PutState api (worker_id w) SETUP_FAILED]
        \<and> (\<forall>a i. PutState a i SETUP_COMPLETED
               \<notin> set (snd (snd (async_setup_build w executors p idx fetch conf run put)))))
   \<and> (fetch = None \<and> (\<forall>e \<in> set executors. conf e = None) \<and> run = None
       \<and> project_type w \<noteq> None \<and> manager_api w = Some api
    \<longrightarrow> PutState api (worker_id w) SETUP_COMPLETED
          \<in> set (snd (snd (async_setup_build w executors p idx fetch conf run put))))"
proof -
  let ?w1 = "w\<lparr>base_executor_index := Some idx\<rparr>"
  let ?steps = "setup_steps ?w1 executors p fetch conf run"
  let ?evs = "snd (snd (async_setup_build w executors p idx fetch conf run put))"
  obtain r evs where steps: "?steps = (r, evs)"
    by (cases ?steps)
  have no_put: "PutState a i s \<notin> set evs" for a i s
    using setup_steps_no_put[of a i s ?w1 executors p fetch conf run] steps by simp
  have completed: "fetch = None \<and> (\<forall>e \<in> set executors. conf e = None) \<and> run = None
        \<and> (\<exists>pt. project_type w = Some pt
              \<and> ?evs = FetchProject pt # map (\<lambda>e. ExecutorConfigure e p) executors
                    @ [RunJobConfigSetup pt, PutState api wid SETUP_COMPLETED])"
    if put: "PutState api wid SETUP_COMPLETED \<in> set ?evs"
  proof -
    have r: "r = None"
      using put steps no_put
      by (auto simp: async_setup_build_def notify_manager_of_state_change_def Let_def
          split: option.splits if_splits)
    then have ok: "fst ?steps = None" using steps by simp
    have tail: "?evs = evs @ [PutState api wid SETUP_COMPLETED]"
      using put steps r no_put
      by (auto simp: async_setup_build_def notify_manager_of_state_change_def Let_def
          split: option.splits if_splits)
    show ?thesis
      using setup_steps_ok[OF ok] steps tail by auto
  qed
  have failed: "?evs = evs @ [PutState api (worker_id w) SETUP_FAILED]
        \<and> (\<forall>a i. PutState a i SETUP_COMPLETED \<notin> set ?evs)"
    if "r = Some SetupFailureError" "manager_api w = Some api"
    using that steps no_put
    by (auto simp: async_setup_build_def notify_manager_of_state_change_def Let_def
        split: option.splits)
  have succeeded: "PutState api (worker_id w) SETUP_COMPLETED \<in> set ?evs"
    if "fetch = None" "\<forall>e \<in> set executors. conf e = None" "run = None"
      "project_type w \<noteq> None" "manager_api w = Some api"
    using that configure_executors_events_ok[of executors conf p]
    by (auto simp: async_setup_build_def setup_steps_def notify_manager_of_state_change_def
        Let_def split: option.splits)
  show ?thesis
    using completed failed succeeded steps by auto
qed

text \<open>
  A connected worker with two executors: when every step returns the thread ends with
  \<open>SETUP_COMPLETED\<close>; when the second executor fails to configure it ends with
  \<open>SETUP_FAILED\<close> and never runs the job configuration.
\<close>

theorem async_setup_build_notifications_witness:
  "snd (snd (async_setup_build
       (worker_example\<lparr>worker_id := Some 7, manager_api := Some ''localhost:43000'',
          project_type := Some (ProjectType [])\<rparr>)
       [SubjobExecutor 0, SubjobExecutor 1] [] 0 None (\<lambda>e. None) None None))
     = [FetchProject (ProjectType []), ExecutorConfigure (SubjobExecutor 0) [],
        ExecutorConfigure (SubjobExecutor 1) [], RunJobConfigSetup (ProjectType []),
        PutState ''localhost:43000'' (Some 7) SETUP_COMPLETED]
   \<and> snd (snd (async_setup_build
       (worker_example\<lparr>worker_id := Some 7, manager_api := Some ''localhost:43000'',
          project_type := Some (ProjectType [])\<rparr>)
       [SubjobExecutor 0, SubjobExecutor 1] [] 0 None
       (\<lambda>e. if e = SubjobExecutor 1 then Some SetupFailureError else None) None None))
     = [FetchProject (ProjectType []), ExecutorConfigure (SubjobExecutor 0) [],
        ExecutorConfigure (SubjobExecutor 1) [],
        PutState ''localhost:43000'' (Some 7) SETUP_FAILED]"
proof -
  let ?ready = "worker_example\<lparr>worker_id := Some 7, manager_api := Some ''localhost:43000'',
          project_type := Some (ProjectType [])\<rparr>"
  let ?fails = "\<lambda>e. if e = SubjobExecutor 1 then Some SetupFailureError else None"
  have sent: "PutState ''localhost:43000'' (Some 7) SETUP_COMPLETED
      \<in> set (snd (snd (async_setup_build ?ready [SubjobExecutor 0, SubjobExecutor 1] [] 0
                          None (\<lambda>e. None) None None)))"
    by (simp add: async_setup_build_def setup_steps_def notify_manager_of_state_change_def
        Let_def)
  have good: "snd (snd (async_setup_build ?ready [SubjobExecutor 0, SubjobExecutor 1] [] 0
                          None (\<lambda>e. None) None None))
     = [FetchProject (ProjectType []), ExecutorConfigure (SubjobExecutor 0) [],
        ExecutorConfigure (SubjobExecutor 1) [], RunJobConfigSetup (ProjectType []),
        PutState ''localhost:43000'' (Some 7) SETUP_COMPLETED]"
    using async_setup_build_notifications[of "''localhost:43000''" "Some 7" ?ready
        "[SubjobExecutor 0, SubjobExecutor 1]" "[]" 0 None "\<lambda>e. None" None None,
        THEN conjunct1] sent
    by simp
  have steps: "setup_steps (?ready\<lparr>base_executor_index := Some 0\<rparr>)
        [SubjobExecutor 0, SubjobExecutor 1] [] None ?fails None
      = (Some SetupFailureError,
         [FetchProject (ProjectType []), ExecutorConfigure (SubjobExecutor 0) [],
          ExecutorConfigure (SubjobExecutor 1) []])"
    by (simp add: setup_steps_def)
  have bad: "snd (snd (async_setup_build ?ready [SubjobExecutor 0, SubjobExecutor 1] [] 0
                          None ?fails None None))
     = [FetchProject (ProjectType []), ExecutorConfigure (SubjobExecutor 0) [],
        ExecutorConfigure (SubjobExecutor 1) [],
        PutState ''localhost:43000'' (Some 7) SETUP_FAILED]"
    using async_setup_build_notifications[of "''localhost:43000''" "Some 7" ?ready
        "[SubjobExecutor 0, SubjobExecutor 1]" "[]" 0 None ?fails None None,
        THEN conjunct2, THEN conjunct1] steps
    by simp
  show ?thesis
    using good bad by (rule conjI)
qed

subsection \<open>The heartbeat\<close>

lemma run_heartbeat_unconnected:
  "manager_api w = None \<Longrightarrow> run_heartbeat w p = (Raises AttributeError, w, [])"
  by (simp add: run_heartbeat_def send_heartbeat_to_manager_def is_transport_error_def)

lemma run_heartbeat_success:
  "manager_api w = Some api \<Longrightarrow>
   run_heartbeat w None
     = (Returns (), w\<lparr>heartbeat_failure_count := 0\<rparr>,
        [PostHeartbeat api (worker_id w), SchedulerEnter (heartbeat_interval w)])"
  by (simp add: run_heartbeat_def send_heartbeat_to_manager_def)

lemma run_heartbeat_kill:
  "manager_api w = Some api \<Longrightarrow> is_transport_error e \<Longrightarrow>
   heartbeat_failure_threshold w \<le> heartbeat_failure_count w + 1 \<Longrightarrow>
   run_heartbeat w (Some e)
     = (Raises (SystemExit 0), w\<lparr>heartbeat_failure_count := heartbeat_failure_count w + 1\<rparr>,
        [PostHeartbeat api (worker_id w), SysExit 0])"
  by (simp add: run_heartbeat_def send_heartbeat_to_manager_def kill_def Let_def)

lemma run_heartbeat_failure:
  "manager_api w = Some api \<Longrightarrow> is_transport_error e \<Longrightarrow>
   \<not> heartbeat_failure_threshold w \<le> heartbeat_failure_count w + 1 \<Longrightarrow>
   run_heartbeat w (Some e)
     = (Returns (), w\<lparr>heartbeat_failure_count := heartbeat_failure_count w + 1\<rparr>,
        [PostHeartbeat api (worker_id w), SchedulerEnter (heartbeat_interval w)])"
  by (simp add: run_heartbeat_def send_heartbeat_to_manager_def kill_def Let_def)

lemma run_heartbeat_other:
  "manager_api w = Some api \<Longrightarrow> \<not> is_transport_error e \<Longrightarrow>
   run_heartbeat w (Some e) = (Raises e, w, [PostHeartbeat api (worker_id w)])"
  by (simp add: run_heartbeat_def send_heartbeat_to_manager_def)

lemma run_heartbeat_exit_iff:
  "SysExit code \<in> set (snd (snd (run_heartbeat w p)))
   \<longleftrightarrow> code = 0 \<and> manager_api w \<noteq> None \<and> (\<exists>e. p = Some e \<and> is_transport_error e)
       \<and> heartbeat_failure_threshold w \<le> heartbeat_failure_count w + 1"
proof (cases "manager_api w")
  case None
  then show ?thesis by (simp add: run_heartbeat_unconnected)
next
  case (Some api)
  show ?thesis
  proof (cases p)
    case None
    then show ?thesis using Some by (simp add: run_heartbeat_success)
  next
    case post: (Some e)
    show ?thesis
    proof (cases "is_transport_error e")
      case False
      then show ?thesis using Some post by (simp add: run_heartbeat_other)
    next
      case True
      show ?thesis
      proof (cases "heartbeat_failure_threshold w \<le> heartbeat_failure_count w + 1")
        case True
        then show ?thesis
          using Some post \<open>is_transport_error e\<close> by (simp add: run_heartbeat_kill)
      next
        case False
        then show ?thesis
          using Some post \<open>is_transport_error e\<close> by (simp add: run_heartbeat_failure)
      qed
    qed
  qed
qed

lemma run_heartbeat_returns:
  assumes "run_heartbeat w p = (Returns u, w', evs)"
  shows "heartbeat_failure_threshold w' = heartbeat_failure_threshold w
     \<and> manager_api w' = manager_api w
     \<and> (\<forall>code. SysExit code \<notin> set evs)
     \<and> ((p = None \<and> heartbeat_failure_count w' = 0)
        \<or> ((\<exists>e. p = Some e \<and> is_transport_error e)
           \<and> heartbeat_failure_count w' = heartbeat_failure_count w + 1
           \<and> heartbeat_failure_count w' < heartbeat_failure_threshold w))"
proof (cases "manager_api w")
  case None
  then show ?thesis using assms by (simp add: run_heartbeat_unconnected)
next
  case (Some api)
  show ?thesis
  proof (cases p)
    case None
    then show ?thesis using Some assms by (auto simp: run_heartbeat_success)
  next
    case post: (Some e)
    show ?thesis
    proof (cases "is_transport_error e")
      case False
      then show ?thesis using Some post assms by (simp add: run_heartbeat_other)
    next
      case True
      show ?thesis
      proof (cases "heartbeat_failure_threshold w \<le> heartbeat_failure_count w + 1")
        case True
        then show ?thesis
          using Some post assms \<open>is_transport_error e\<close> by (simp add: run_heartbeat_kill)
      next
        case False
        then show ?thesis
          using Some post assms \<open>is_transport_error e\<close>
          by (auto simp: run_heartbeat_failure)
      qed
    qed
  qed
qed

lemma heartbeat_ticks_snoc:
  "heartbeat_ticks w (outcomes @ [p]) =
     (case heartbeat_ticks w outcomes of
        (Returns u, w1, evs) \<Rightarrow>
          (case run_heartbeat w1 p of (r, w2, evs2) \<Rightarrow> (r, w2, evs @ evs2))
      | (r, w1, evs) \<Rightarrow> (r, w1, evs))"
proof (induction outcomes arbitrary: w)
  case Nil
  show ?case
    by (auto split: prod.splits outcome.splits)
next
  case (Cons a outcomes)
  show ?case
    by (auto simp: Cons split: prod.splits outcome.splits)
qed

lemma trailing_failures_snoc:
  "trailing_failures (outcomes @ [p]) =
     (case p of None \<Rightarrow> 0
      | Some e \<Rightarrow> if is_transport_error e then Suc (trailing_failures outcomes) else 0)"
  by (simp add: trailing_failures_def split: option.splits)

lemma heartbeat_ticks_invariant:
  "heartbeat_failure_count w = 0 \<Longrightarrow> 1 \<le> heartbeat_failure_threshold w \<Longrightarrow>
   heartbeat_ticks w outcomes = (Returns u, w', evs) \<Longrightarrow>
   heartbeat_failure_count w' = int (trailing_failures outcomes)
   \<and> heartbeat_failure_count w' < heartbeat_failure_threshold w
   \<and> heartbeat_failure_threshold w' = heartbeat_failure_threshold w
   \<and> manager_api w' = manager_api w
   \<and> (\<forall>code. SysExit code \<notin> set evs)"
proof (induction outcomes arbitrary: u w' evs rule: rev_induct)
  case Nil
  then show ?case by (auto simp: trailing_failures_def)
next
  case (snoc p outcomes)
  obtain r1 w1 evs1 where before: "heartbeat_ticks w outcomes = (r1, w1, evs1)"
    by (cases "heartbeat_ticks w outcomes")
  obtain r2 w2 evs2 where tick: "run_heartbeat w1 p = (r2, w2, evs2)"
    by (cases "run_heartbeat w1 p")
  from snoc.prems(3) before tick obtain u1 where r1: "r1 = Returns u1"
    by (cases r1) (auto simp: heartbeat_ticks_snoc)
  from snoc.prems(3) before tick r1 have last: "r2 = Returns u" "w2 = w'" "evs = evs1 @ evs2"
    by (auto simp: heartbeat_ticks_snoc)
  have inv: "heartbeat_failure_count w1 = int (trailing_failures outcomes)
      \<and> heartbeat_failure_count w1 < heartbeat_failure_threshold w
      \<and> heartbeat_failure_threshold w1 = heartbeat_failure_threshold w
      \<and> manager_api w1 = manager_api w
      \<and> (\<forall>code. SysExit code \<notin> set evs1)"
    using snoc.IH[OF snoc.prems(1) snoc.prems(2)] before r1 by simp
  have step: "heartbeat_failure_threshold w' = heartbeat_failure_threshold w1
     \<and> manager_api w' = manager_api w1
     \<and> (\<forall>code. SysExit code \<notin> set evs2)
     \<and> ((p = None \<and> heartbeat_failure_count w' = 0)
        \<or> ((\<exists>e. p = Some e \<and> is_transport_error e)
           \<and> heartbeat_failure_count w' = heartbeat_failure_count w1 + 1
           \<and> heartbeat_failure_count w' < heartbeat_failure_threshold w1))"
    using run_heartbeat_returns[of w1 p u w' evs2] tick last by simp
  show ?case
    using inv step last snoc.prems(2)
    by (auto simp: trailing_failures_snoc)
qed


lemma run_heartbeat_count:
  "heartbeat_failure_count (fst (snd (run_heartbeat w p))) =
     (if manager_api w \<noteq> None \<and> p = None then 0
      else if manager_api w \<noteq> None \<and> (\<exists>e. p = Some e \<and> is_transport_error e)
        then heartbeat_failure_count w + 1
      else heartbeat_failure_count w)"
proof (cases "manager_api w")
  case None
  then show ?thesis by (simp add: run_heartbeat_unconnected)
next
  case (Some api)
  show ?thesis
  proof (cases p)
    case None
    then show ?thesis using Some by (simp add: run_heartbeat_success)
  next
    case post: (Some e)
    show ?thesis
    proof (cases "is_transport_error e")
      case False
      then show ?thesis using Some post by (simp add: run_heartbeat_other)
    next
      case True
      then show ?thesis
        using Some post run_heartbeat_kill[of w api e] run_heartbeat_failure[of w api e]
        by (cases "heartbeat_failure_threshold w \<le> heartbeat_failure_count w + 1") simp_all
    qed
  qed
qed

lemma run_heartbeat_exit_raises:
  "SysExit code \<in> set (snd (snd (run_heartbeat w p))) \<Longrightarrow>
   fst (run_heartbeat w p) = Raises (SystemExit 0)"
  using run_heartbeat_exit_iff[of code w p] run_heartbeat_kill[of w _ _]
  by auto

text \<open>
  C7. One tick sets the failure counter to 0 when the heartbeat post returns, adds 1 to it
  when the post raises a connection or timeout error, and leaves it alone on every other
  outcome. \<^verbatim>\<open>sys.exit\<close> is called in a tick exactly when the post fails at the transport
  level and the counter, so incremented, is at or above the threshold; it is called with
  status 0 and the tick ends with \<open>SystemExit 0\<close>. Over the ticks of the heartbeat loop,
  started with counter 0 and a threshold of at least 1: as long as the loop is still
  scheduled the counter is the number of consecutive transport failures up to now, it is
  below the threshold, \<^verbatim>\<open>kill\<close> has not been called, and the next tick calls \<^verbatim>\<open>kill\<close> if
  and only if its post fails at the transport level and that failure makes the number of
  consecutive failures equal to the threshold.
\<close>

theorem heartbeat_counter_and_kill:
  "heartbeat_failure_count (fst (snd (run_heartbeat w p))) =
     (if manager_api w \<noteq> None \<and> p = None then 0
      else if manager_api w \<noteq> None \<and> (\<exists>e. p = Some e \<and> is_transport_error e)
        then heartbeat_failure_count w + 1
      else heartbeat_failure_count w)
   \<and> (SysExit code \<in> set (snd (snd (run_heartbeat w p)))
        \<longleftrightarrow> code = 0 \<and> manager_api w \<noteq> None \<and> (\<exists>e. p = Some e \<and> is_transport_error e)
            \<and> heartbeat_failure_threshold w \<le> heartbeat_failure_count w + 1)
   \<and> (SysExit code \<in> set (snd (snd (run_heartbeat w p)))
        \<longrightarrow> fst (run_heartbeat w p) = Raises (SystemExit 0))
   \<and> (heartbeat_failure_count w = 0 \<and> 1 \<le> heartbeat_failure_threshold w
       \<and> fst (heartbeat_ticks w outcomes) = Returns ()
        \<longrightarrow> heartbeat_failure_count (fst (snd (heartbeat_ticks w outcomes)))
              = int (trailing_failures outcomes)
            \<and> heartbeat_failure_count (fst (snd (heartbeat_ticks w outcomes)))
              < heartbeat_failure_threshold w
            \<and> (\<forall>c. SysExit c \<notin> set (snd (snd (heartbeat_ticks w outcomes))))
            \<and> (\<forall>next_outcome.
                  SysExit 0 \<in> set (snd (snd (run_heartbeat (fst (snd (heartbeat_ticks w outcomes)))
                                                next_outcome)))
                  \<longleftrightarrow> manager_api w \<noteq> None
                      \<and> (\<exists>e. next_outcome = Some e \<and> is_transport_error e)
                      \<and> int (trailing_failures outcomes) + 1 = heartbeat_failure_threshold w))"
proof -
  have ticks: "heartbeat_failure_count w' = int (trailing_failures outcomes)
            \<and> heartbeat_failure_count w' < heartbeat_failure_threshold w
            \<and> (\<forall>c. SysExit c \<notin> set evs)
            \<and> (\<forall>next_outcome.
                  SysExit 0 \<in> set (snd (snd (run_heartbeat w' next_outcome)))
                  \<longleftrightarrow> manager_api w \<noteq> None
                      \<and> (\<exists>e. next_outcome = Some e \<and> is_transport_error e)
                      \<and> int (trailing_failures outcomes) + 1 = heartbeat_failure_threshold w)"
    if start: "heartbeat_failure_count w = 0" "1 \<le> heartbeat_failure_threshold w"
      and run: "heartbeat_ticks w outcomes = (Returns (), w', evs)" for w' evs
  proof -
    have inv: "heartbeat_failure_count w' = int (trailing_failures outcomes)
       \<and> heartbeat_failure_count w' < heartbeat_failure_threshold w
       \<and> heartbeat_failure_threshold w' = heartbeat_failure_threshold w
       \<and> manager_api w' = manager_api w
       \<and> (\<forall>code. SysExit code \<notin> set evs)"
      using heartbeat_ticks_invariant[OF start run] .
    have "SysExit 0 \<in> set (snd (snd (run_heartbeat w' q)))
        \<longleftrightarrow> manager_api w \<noteq> None \<and> (\<exists>e. q = Some e \<and> is_transport_error e)
            \<and> int (trailing_failures outcomes) + 1 = heartbeat_failure_threshold w" for q
      using run_heartbeat_exit_iff[of 0 w' q] inv by auto
    then show ?thesis using inv by blast
  qed
  have multi: "heartbeat_failure_count w = 0 \<and> 1 \<le> heartbeat_failure_threshold w
       \<and> fst (heartbeat_ticks w outcomes) = Returns ()
        \<longrightarrow> heartbeat_failure_count (fst (snd (heartbeat_ticks w outcomes)))
              = int (trailing_failures outcomes)
            \<and> heartbeat_failure_count (fst (snd (heartbeat_ticks w outcomes)))
              < heartbeat_failure_threshold w
            \<and> (\<forall>c. SysExit c \<notin> set (snd (snd (heartbeat_ticks w outcomes))))
            \<and> (\<forall>next_outcome.
                  SysExit 0 \<in> set (snd (snd (run_heartbeat (fst (snd (heartbeat_ticks w outcomes)))
                                                next_outcome)))
                  \<longleftrightarrow> manager_api w \<noteq> None
                      \<and> (\<exists>e. next_outcome = Some e \<and> is_transport_error e)
                      \<and> int (trailing_failures outcomes) + 1 = heartbeat_failure_threshold w)"
  proof (intro impI, elim conjE)
    assume zero: "heartbeat_failure_count w = 0"
      and positive: "1 \<le> heartbeat_failure_threshold w"
      and returned: "fst (heartbeat_ticks w outcomes) = Returns ()"
    obtain w' evs where run: "heartbeat_ticks w outcomes = (Returns (), w', evs)"
      using returned by (cases "heartbeat_ticks w outcomes") auto
    show "heartbeat_failure_count (fst (snd (heartbeat_ticks w outcomes)))
              = int (trailing_failures outcomes)
            \<and> heartbeat_failure_count (fst (snd (heartbeat_ticks w outcomes)))
              < heartbeat_failure_threshold w
            \<and> (\<forall>c. SysExit c \<notin> set (snd (snd (heartbeat_ticks w outcomes))))
            \<and> (\<forall>next_outcome.
                  SysExit 0 \<in> set (snd (snd (run_heartbeat (fst (snd (heartbeat_ticks w outcomes)))
                                                next_outcome)))
                  \<longleftrightarrow> manager_api w \<noteq> None
                      \<and> (\<exists>e. next_outcome = Some e \<and> is_transport_error e)
                      \<and> int (trailing_failures outcomes) + 1 = heartbeat_failure_threshold w)"
      unfolding run fst_conv snd_conv using ticks[OF zero positive run] .
  qed
  show ?thesis
    using run_heartbeat_count[of w p] run_heartbeat_exit_iff[of code w p]
      run_heartbeat_exit_raises[of code w p] multi
    by (intro conjI) blast+
qed

text \<open>
  With threshold 3: a timeout, a success, a timeout and a connection error leave the
  counter at 2 and the loop running; one more timeout calls \<^verbatim>\<open>kill\<close>, an error of another
  kind does not; three timeouts in a row end the loop with \<open>SystemExit 0\<close>.
\<close>

theorem heartbeat_counter_and_kill_witness:
  "fst (heartbeat_ticks
          (worker_example\<lparr>worker_id := Some 7, manager_api := Some ''localhost:43000''\<rparr>)
          [Some Timeout, None, Some Timeout, Some ConnectionError]) = Returns ()
   \<and> heartbeat_failure_count
        (fst (snd (heartbeat_ticks
          (worker_example\<lparr>worker_id := Some 7, manager_api := Some ''localhost:43000''\<rparr>)
          [Some Timeout, None, Some Timeout, Some ConnectionError]))) = 2
   \<and> SysExit 0 \<in> set (snd (snd (run_heartbeat
        (fst (snd (heartbeat_ticks
          (worker_example\<lparr>worker_id := Some 7, manager_api := Some ''localhost:43000''\<rparr>)
          [Some Timeout, None, Some Timeout, Some ConnectionError])))
        (Some Timeout))))
   \<and> SysExit 0 \<notin> set (snd (snd (run_heartbeat
        (fst (snd (heartbeat_ticks
          (worker_example\<lparr>worker_id := Some 7, manager_api := Some ''localhost:43000''\<rparr>)
          [Some Timeout, None, Some Timeout, Some ConnectionError])))
        (Some (OtherError ''500'')))))
   \<and> fst (heartbeat_ticks
          (worker_example\<lparr>worker_id := Some 7, manager_api := Some ''localhost:43000''\<rparr>)
          [Some Timeout, Some Timeout, Some Timeout]) = Raises (SystemExit 0)"
proof -
  let ?connected =
    "worker_example\<lparr>worker_id := Some 7, manager_api := Some ''localhost:43000''\<rparr>"
  let ?outcomes = "[Some Timeout, None, Some Timeout, Some ConnectionError]"
  have api: "manager_api ?connected = Some ''localhost:43000''"
    by simp
  have zero: "heartbeat_failure_count ?connected = 0"
    and three: "heartbeat_failure_threshold ?connected = 3"
    by (simp_all add: worker_example_eq)
  have transport: "is_transport_error Timeout" "is_transport_error ConnectionError"
    "\<not> is_transport_error (OtherError ''500'')"
    by (simp_all add: is_transport_error_def)
  have returned: "fst (heartbeat_ticks ?connected ?outcomes) = Returns ()"
    by (simp add: worker_example_eq run_heartbeat_def send_heartbeat_to_manager_def
        is_transport_error_def Let_def)
  have trailing: "trailing_failures ?outcomes = 2"
    by (simp add: trailing_failures_def is_transport_error_def)
  note ticks = heartbeat_counter_and_kill[of ?connected None 0 ?outcomes,
      THEN conjunct2, THEN conjunct2, THEN conjunct2, rule_format,
      OF conjI[OF zero conjI[OF _ returned]]]
  have facts: "heartbeat_failure_count (fst (snd (heartbeat_ticks ?connected ?outcomes))) = 2"
    "SysExit 0 \<in> set (snd (snd (run_heartbeat
        (fst (snd (heartbeat_ticks ?connected ?outcomes))) (Some Timeout))))"
    "SysExit 0 \<notin> set (snd (snd (run_heartbeat
        (fst (snd (heartbeat_ticks ?connected ?outcomes))) (Some (OtherError ''500'')))))"
    using ticks api three trailing transport by simp_all
  have killed: "fst (heartbeat_ticks ?connected [Some Timeout, Some Timeout, Some Timeout])
      = Raises (SystemExit 0)"
    by (simp add: worker_example_eq run_heartbeat_def send_heartbeat_to_manager_def
        is_transport_error_def kill_def Let_def)
  show ?thesis
    using returned facts killed by (intro conjI)
qed

subsection \<open>The idle notification after teardown\<close>

lemma poll_state_0 [simp]: "poll_state w schedule 0 = w"
  by (simp add: poll_state_def)

lemma poll_state_Suc [simp]:
  "poll_state w (others # schedule) (Suc k) = poll_state (others w) schedule k"
  by (simp add: poll_state_def)

lemma wait_for_idle_returns:
  "wait_for_idle_executors w schedule = (Returns u, w', evs) \<Longrightarrow>
   \<exists>k \<le> length schedule.
     (\<forall>j < k. \<not> full (poll_state w schedule j)) \<and> full (poll_state w schedule k)
     \<and> w' = poll_state w schedule k \<and> evs = replicate k (Sleep 1)"
proof (induction schedule arbitrary: w evs)
  case Nil
  then show ?case by (auto split: if_splits)
next
  case (Cons others schedule)
  show ?case
  proof (cases "full w")
    case True
    then show ?thesis using Cons.prems by auto
  next
    case False
    obtain r0 w0 evs0 where rest: "wait_for_idle_executors (others w) schedule = (r0, w0, evs0)"
      by (cases "wait_for_idle_executors (others w) schedule")
    from Cons.prems False rest have r0: "r0 = Returns u" and w0: "w0 = w'"
        and evs: "evs = Sleep 1 # evs0"
      by simp_all
    obtain k where k: "k \<le> length schedule"
        "\<forall>j < k. \<not> full (poll_state (others w) schedule j)"
        "full (poll_state (others w) schedule k)"
        "w' = poll_state (others w) schedule k" "evs0 = replicate k (Sleep 1)"
      using Cons.IH[of "others w" evs0] rest r0 w0 by auto
    have before: "\<not> full (poll_state w (others # schedule) j)" if "j < Suc k" for j
      using that k(2) False by (cases j) simp_all
    show ?thesis
      using k before evs by (intro exI[of _ "Suc k"]) simp
  qed
qed

lemma wait_for_idle_finds:
  "k \<le> length schedule \<Longrightarrow> full (poll_state w schedule k) \<Longrightarrow>
   fst (wait_for_idle_executors w schedule) = Returns ()"
proof (induction schedule arbitrary: w k)
  case Nil
  then show ?case by simp
next
  case (Cons others schedule)
  show ?case
  proof (cases "full w")
    case True
    then show ?thesis by simp
  next
    case False
    then obtain k' where k': "k = Suc k'"
      using Cons.prems(2) by (cases k) simp_all
    have "fst (wait_for_idle_executors (others w) schedule) = Returns ()"
      using Cons.IH[of k' "others w"] Cons.prems k' by simp
    then show ?thesis
      using False by (cases "wait_for_idle_executors (others w) schedule") simp
  qed
qed

lemma wait_for_idle_never_raises:
  "fst (wait_for_idle_executors w schedule) \<noteq> Raises e"
proof (induction schedule arbitrary: w)
  case Nil
  show ?case by simp
next
  case (Cons others schedule)
  show ?case
    using Cons[of "others w"]
    by (cases "wait_for_idle_executors (others w) schedule") simp
qed

lemma wait_for_idle_no_put:
  "PutState a i s \<notin> set (snd (snd (wait_for_idle_executors w schedule)))"
proof (induction schedule arbitrary: w)
  case Nil
  show ?case by simp
next
  case (Cons others schedule)
  show ?case
    using Cons[of "others w"]
    by (cases "wait_for_idle_executors (others w) schedule") simp
qed

lemma do_teardown_no_put:
  "PutState a i s \<notin> set (snd (snd (do_build_teardown_and_reset w timeout t)))"
  using do_teardown_kills_first[of w timeout t] by auto

lemma send_idle_events:
  "PutState a i s \<in> set (snd (snd (send_manager_idle_notification w g n))) \<Longrightarrow>
   manager_api w = Some a \<and> worker_id w = i \<and> s = IDLE
   \<and> snd (snd (send_manager_idle_notification w g n)) = [GetManager a, PutState a i IDLE]"
proof (cases "manager_api w")
  case None
  assume "PutState a i s \<in> set (snd (snd (send_manager_idle_notification w g n)))"
  then show ?thesis
    using None by (simp add: send_manager_idle_notification_def is_manager_responsive_def)
next
  case (Some api)
  assume put: "PutState a i s \<in> set (snd (snd (send_manager_idle_notification w g n)))"
  show ?thesis
  proof (cases g)
    case None
    then show ?thesis
      using Some put
      by (cases n) (auto simp: send_manager_idle_notification_def is_manager_responsive_def
          notify_manager_of_state_change_def)
  next
    case failed: (Some e)
    then show ?thesis
      using Some put
      by (cases "is_transport_error e")
        (simp_all add: send_manager_idle_notification_def is_manager_responsive_def)
  qed
qed

lemma send_idle_sent:
  "manager_api w = Some api \<Longrightarrow>
   snd (snd (send_manager_idle_notification w None n))
     = [GetManager api, PutState api (worker_id w) IDLE]"
  by (cases n) (simp_all add: send_manager_idle_notification_def is_manager_responsive_def
      notify_manager_of_state_change_def)

text \<open>
  C6. If the teardown thread sends \<open>IDLE\<close>, then \<^verbatim>\<open>_do_build_teardown_and_reset\<close> has
  returned, the thread has then polled the queue of idle executors, sleeping one second
  after each poll that found it not full, and the queue was full at the poll that ended
  the loop, which is the worker state the notification is sent from; whatever the other
  threads do to the worker during the sleeps. The calls of the thread are those of the
  teardown, the sleeps, the probe and the notification, in this order. Conversely, when
  the teardown returns, some poll finds the queue full, the manager answers the probe and
  the worker is connected, the thread does not wait for ever and sends \<open>IDLE\<close>.
\<close>

theorem idle_sent_after_teardown_and_refill:
  "(PutState api wid IDLE \<in> set (snd (snd (async_teardown_build w t schedule g n)))
    \<longrightarrow> (\<exists>w1 evs1 k.
          do_build_teardown_and_reset w None t = (Returns (), w1, evs1)
          \<and> k \<le> length schedule
          \<and> (\<forall>j < k. \<not> full (poll_state w1 schedule j))
          \<and> full (poll_state w1 schedule k)
          \<and> fst (snd (async_teardown_build w t schedule g n)) = poll_state w1 schedule k
          \<and> snd (snd (async_teardown_build w t schedule g n))
              = evs1 @ replicate k (Sleep 1) @ [GetManager api, PutState api wid IDLE]))
   \<and> (fst (do_build_teardown_and_reset w None t) = Returns ()
       \<and> k \<le> length schedule
       \<and> full (poll_state (fst (snd (do_build_teardown_and_reset w None t))) schedule k)
       \<and> manager_api (fst (snd (async_teardown_build w t schedule None n))) = Some api
    \<longrightarrow> fst (async_teardown_build w t schedule None n) \<noteq> Blocks
        \<and> PutState api (worker_id (fst (snd (async_teardown_build w t schedule None n)))) IDLE
            \<in> set (snd (snd (async_teardown_build w t schedule None n))))"
proof (intro conjI impI)
  assume put: "PutState api wid IDLE \<in> set (snd (snd (async_teardown_build w t schedule g n)))"
  obtain r1 w1 evs1 where first: "do_build_teardown_and_reset w None t = (r1, w1, evs1)"
    by (cases "do_build_teardown_and_reset w None t")
  have no1: "PutState api wid IDLE \<notin> set evs1"
    using do_teardown_no_put[of api wid IDLE w None t] first by simp
  have r1: "r1 = Returns ()"
    using put first no1 by (cases r1) (simp_all add: async_teardown_build_def)
  obtain r2 w2 evs2 where wait: "wait_for_idle_executors w1 schedule = (r2, w2, evs2)"
    by (cases "wait_for_idle_executors w1 schedule")
  have no2: "PutState api wid IDLE \<notin> set evs2"
    using wait_for_idle_no_put[of api wid IDLE w1 schedule] wait by simp
  have r2: "r2 = Returns ()"
    using put first r1 wait no1 no2 by (cases r2) (simp_all add: async_teardown_build_def)
  obtain r3 w3 evs3 where send: "send_manager_idle_notification w2 g n = (r3, w3, evs3)"
    by (cases "send_manager_idle_notification w2 g n")
  have all: "async_teardown_build w t schedule g n = (r3, w3, evs1 @ evs2 @ evs3)"
    using first r1 wait r2 send by (simp add: async_teardown_build_def)
  have "PutState api wid IDLE \<in> set evs3"
    using put all no1 no2 by simp
  then have evs3: "evs3 = [GetManager api, PutState api wid IDLE]"
    using send_idle_events[of api wid IDLE w2 g n] send by simp
  have w3: "w3 = w2"
    using send_idle_worker[of w2 g n] send by simp
  obtain k where k: "k \<le> length schedule" "\<forall>j < k. \<not> full (poll_state w1 schedule j)"
      "full (poll_state w1 schedule k)" "w2 = poll_state w1 schedule k"
      "evs2 = replicate k (Sleep 1)"
    using wait_for_idle_returns[of w1 schedule "()" w2 evs2] wait r2 by auto
  show "\<exists>w1 evs1 k.
          do_build_teardown_and_reset w None t = (Returns (), w1, evs1)
          \<and> k \<le> length schedule
          \<and> (\<forall>j < k. \<not> full (poll_state w1 schedule j))
          \<and> full (poll_state w1 schedule k)
          \<and> fst (snd (async_teardown_build w t schedule g n)) = poll_state w1 schedule k
          \<and> snd (snd (async_teardown_build w t schedule g n))
              = evs1 @ replicate k (Sleep 1) @ [GetManager api, PutState api wid IDLE]"
    using first r1 k all evs3 w3
    by (intro exI[of _ w1] exI[of _ evs1] exI[of _ k]) simp
next
  assume a: "fst (do_build_teardown_and_reset w None t) = Returns ()
       \<and> k \<le> length schedule
       \<and> full (poll_state (fst (snd (do_build_teardown_and_reset w None t))) schedule k)
       \<and> manager_api (fst (snd (async_teardown_build w t schedule None n))) = Some api"
  obtain w1 evs1 where first: "do_build_teardown_and_reset w None t = (Returns (), w1, evs1)"
    using a by (cases "do_build_teardown_and_reset w None t") auto
  have "fst (wait_for_idle_executors w1 schedule) = Returns ()"
    using wait_for_idle_finds[of k schedule w1] a first by simp
  then obtain w2 evs2 where wait: "wait_for_idle_executors w1 schedule = (Returns (), w2, evs2)"
    by (cases "wait_for_idle_executors w1 schedule") auto
  obtain r3 w3 evs3 where send: "send_manager_idle_notification w2 None n = (r3, w3, evs3)"
    by (cases "send_manager_idle_notification w2 None n")
  have all: "async_teardown_build w t schedule None n = (r3, w3, evs1 @ evs2 @ evs3)"
    using first wait send by (simp add: async_teardown_build_def)
  have w3: "w3 = w2"
    using send_idle_worker[of w2 None n] send by simp
  have api: "manager_api w2 = Some api"
    using a all w3 by simp
  have evs3: "evs3 = [GetManager api, PutState api (worker_id w2) IDLE]"
    using send_idle_sent[OF api, of n] send by simp
  have r3: "r3 \<noteq> Blocks"
    using send api
    by (cases n) (auto simp: send_manager_idle_notification_def is_manager_responsive_def
        notify_manager_of_state_change_def)
  show "fst (async_teardown_build w t schedule None n) \<noteq> Blocks"
    using all r3 by simp
  show "PutState api (worker_id (fst (snd (async_teardown_build w t schedule None n)))) IDLE
            \<in> set (snd (snd (async_teardown_build w t schedule None n)))"
    using all w3 evs3 by simp
qed

text \<open>
  One executor is still at work when the teardown starts and comes back during the
  second sleep: the thread kills the executors, tears the build down, sleeps twice and
  then reports \<open>IDLE\<close> from a worker whose queue is full.
\<close>

theorem idle_sent_after_teardown_and_refill_witness:
  "snd (snd (async_teardown_build
       (worker_example\<lparr>worker_id := Some 7, idle_executors := [SubjobExecutor 1],
          manager_api := Some ''localhost:43000'', project_type := Some (ProjectType []),
          current_build_id := Some 42, build_teardown_coin := Some (SingleUseCoin False),
          base_executor_index := Some 0\<rparr>)
       None [\<lambda>v. v, put_back [SubjobExecutor 0]] None None))
     = [ExecutorKill (SubjobExecutor 0), ExecutorKill (SubjobExecutor 1),
        ProjectTeardownBuild (ProjectType []) None, Sleep 1, Sleep 1,
        GetManager ''localhost:43000'', PutState ''localhost:43000'' (Some 7) IDLE]
   \<and> full (fst (snd (async_teardown_build
       (worker_example\<lparr>worker_id := Some 7, idle_executors := [SubjobExecutor 1],
          manager_api := Some ''localhost:43000'', project_type := Some (ProjectType []),
          current_build_id := Some 42, build_teardown_coin := Some (SingleUseCoin False),
          base_executor_index := Some 0\<rparr>)
       None [\<lambda>v. v, put_back [SubjobExecutor 0]] None None)))"
proof -
  let ?busy = "worker_example\<lparr>worker_id := Some 7, idle_executors := [SubjobExecutor 1],
          manager_api := Some ''localhost:43000'', project_type := Some (ProjectType []),
          current_build_id := Some 42, build_teardown_coin := Some (SingleUseCoin False),
          base_executor_index := Some 0\<rparr>"
  let ?schedule = "[\<lambda>v. v, put_back [SubjobExecutor 0]]"
  let ?run = "async_teardown_build ?busy None ?schedule None None"
  have events: "snd (snd ?run)
     = [ExecutorKill (SubjobExecutor 0), ExecutorKill (SubjobExecutor 1),
        ProjectTeardownBuild (ProjectType []) None, Sleep 1, Sleep 1,
        GetManager ''localhost:43000'', PutState ''localhost:43000'' (Some 7) IDLE]"
    by (simp add: worker_example_eq async_teardown_build_def do_build_teardown_and_reset_def
        spend_def executors_values_def full_def put_back_def
        send_manager_idle_notification_def is_manager_responsive_def
        notify_manager_of_state_change_def Let_def)
  then have "PutState ''localhost:43000'' (Some 7) IDLE \<in> set (snd (snd ?run))"
    by simp
  then obtain w1 k where "full (poll_state w1 ?schedule k)"
      "fst (snd ?run) = poll_state w1 ?schedule k"
    using idle_sent_after_teardown_and_refill[of "''localhost:43000''" "Some 7" ?busy None
        ?schedule None None, THEN conjunct1]
    by blast
  then have "full (fst (snd ?run))"
    by simp
  then show ?thesis
    using events by (rule conjI[rotated])
qed


subsection \<open>Build setup while the worker is busy\<close>

text \<open>
  C1, as stated, does not hold. With build 41 active and every executor idle,
  \<^verbatim>\<open>setup_build(42, ...)\<close> raises nothing and makes 42 the current build: the method has
  no check of \<open>current_build_id\<close>.
\<close>

theorem setup_build_active_build_counterexample:
  "current_build_id (worker_example\<lparr>current_build_id := Some 41\<rparr>) = Some 41
   \<and> full (worker_example\<lparr>current_build_id := Some 41\<rparr>)
   \<and> fst (setup_build (worker_example\<lparr>current_build_id := Some 41\<rparr>) 42 [(''type'', ''git'')] 0)
       = Returns ()
   \<and> current_build_id
        (fst (snd (setup_build (worker_example\<lparr>current_build_id := Some 41\<rparr>) 42
                     [(''type'', ''git'')] 0))) = Some 42"
  by (simp add: worker_example_eq setup_build_def full_def Let_def)

text \<open>
  C1, amended. \<^verbatim>\<open>setup_build\<close> raises exactly when the queue of idle executors is not
  full; it then raises \<open>RuntimeError\<close> and has started no thread and called no
  collaborator. Whether a build is already active is not checked: a call on a full queue
  returns, makes the given build the current one with a fresh coin and a new project
  type, and starts the setup thread on the snapshot of the idle executors.
\<close>

theorem setup_build_raises_iff_pool_not_full:
  "(fst (setup_build w build_id project_type_params start_index) = Raises RuntimeError
      \<longleftrightarrow> \<not> full w)
   \<and> (\<forall>e. fst (setup_build w build_id project_type_params start_index) = Raises e
          \<longrightarrow> e = RuntimeError
              \<and> snd (snd (setup_build w build_id project_type_params start_index)) = [])
   \<and> (full w \<longrightarrow>
        setup_build w build_id project_type_params start_index =
          (Returns (),
           w\<lparr>current_build_id := Some build_id,
              build_teardown_coin := Some (SingleUseCoin False),
              project_type := Some (create_project_type project_type_params)\<rparr>,
           [ThreadStart (AsyncSetupBuild (idle_executors w) project_type_params start_index)]))"
  by (simp add: setup_build_def full_def Let_def)

theorem setup_build_raises_iff_pool_not_full_witness:
  "full worker_example
   \<and> setup_build worker_example 42 [(''type'', ''git'')] 0
       = (Returns (),
          worker_example\<lparr>current_build_id := Some 42,
             build_teardown_coin := Some (SingleUseCoin False),
             project_type := Some (create_project_type [(''type'', ''git'')])\<rparr>,
          [ThreadStart (AsyncSetupBuild [SubjobExecutor 0, SubjobExecutor 1]
                          [(''type'', ''git'')] 0)])
   \<and> \<not> full (worker_example\<lparr>idle_executors := [SubjobExecutor 1]\<rparr>)
   \<and> fst (setup_build (worker_example\<lparr>idle_executors := [SubjobExecutor 1]\<rparr>) 42
            [(''type'', ''git'')] 0) = Raises RuntimeError
   \<and> snd (snd (setup_build (worker_example\<lparr>idle_executors := [SubjobExecutor 1]\<rparr>) 42
                 [(''type'', ''git'')] 0)) = []"
proof -
  let ?busy = "worker_example\<lparr>idle_executors := [SubjobExecutor 1]\<rparr>"
  let ?p = "[(''type'', ''git'')]"
  have idle: "full worker_example" and busy: "\<not> full ?busy"
    by (simp_all add: worker_example_eq full_def)
  have accepted: "setup_build worker_example 42 ?p 0
       = (Returns (),
          worker_example\<lparr>current_build_id := Some 42,
             build_teardown_coin := Some (SingleUseCoin False),
             project_type := Some (create_project_type ?p)\<rparr>,
          [ThreadStart (AsyncSetupBuild [SubjobExecutor 0, SubjobExecutor 1] ?p 0)])"
    using setup_build_raises_iff_pool_not_full[of worker_example 42 ?p 0,
        THEN conjunct2, THEN conjunct2, rule_format, OF idle]
    by (simp add: worker_example_eq)
  have refused: "fst (setup_build ?busy 42 ?p 0) = Raises RuntimeError"
    using setup_build_raises_iff_pool_not_full[of ?busy 42 ?p 0, THEN conjunct1] busy
    by blast
  have no_calls: "snd (snd (setup_build ?busy 42 ?p 0)) = []"
    by (rule setup_build_raises_iff_pool_not_full[of ?busy 42 ?p 0,
          THEN conjunct2, THEN conjunct1, rule_format, OF refused, THEN conjunct2])
  show ?thesis
    by (rule conjI[OF idle conjI[OF accepted conjI[OF busy conjI[OF refused no_calls]]]])
qed

text \<open>
  A defect of \<^verbatim>\<open>setup_build\<close>. The test that its comment announces, "verify all
  executors are idle", stands after the assignments of \<open>current_build_id\<close>, the coin and
  \<open>project_type\<close>, where \<^verbatim>\<open>teardown_build\<close> and \<^verbatim>\<open>start_working_on_subjob\<close> test before
  they change anything. So a refused call is not without effect. Build 41 is running and
  one executor is at work; \<^verbatim>\<open>setup_build(42, ...)\<close> is refused, and yet build 42 is the
  current build afterwards, with its coin and project type, and a teardown of build 41
  is then rejected.
\<close>

theorem setup_build_refused_call_replaces_build:
  "\<not> full (worker_example\<lparr>idle_executors := [SubjobExecutor 1], current_build_id := Some 41,
              build_teardown_coin := Some (SingleUseCoin False),
              project_type := Some (ProjectType [(''type'', ''hg'')])\<rparr>)
   \<and> setup_build
        (worker_example\<lparr>idle_executors := [SubjobExecutor 1], current_build_id := Some 41,
              build_teardown_coin := Some (SingleUseCoin False),
              project_type := Some (ProjectType [(''type'', ''hg'')])\<rparr>)
        42 [(''type'', ''git'')] 0
       = (Raises RuntimeError,
          worker_example\<lparr>idle_executors := [SubjobExecutor 1], current_build_id := Some 42,
              build_teardown_coin := Some (SingleUseCoin False),
              project_type := Some (ProjectType [(''type'', ''git'')])\<rparr>, [])
   \<and> fst (teardown_build
        (fst (snd (setup_build
          (worker_example\<lparr>idle_executors := [SubjobExecutor 1], current_build_id := Some 41,
              build_teardown_coin := Some (SingleUseCoin False),
              project_type := Some (ProjectType [(''type'', ''hg'')])\<rparr>)
          42 [(''type'', ''git'')] 0)))
        (Some 41)) = Raises BadRequestError"
  by (simp add: worker_example_eq setup_build_def full_def create_project_type_def
      teardown_build_def Let_def)

subsection \<open>Registration with the manager\<close>

lemma connect_to_manager_url:
  "is_alive (fst (snd (connect_to_manager w url post wid)))
   \<and> manager_url (fst (snd (connect_to_manager w url post wid)))
       = Some (if url = None \<or> url = Some [] then ''localhost:43000'' else the url)"
  by (cases url; cases post; cases wid) (simp_all add: connect_to_manager_def Let_def)

lemma connect_to_manager_returns:
  "fst (connect_to_manager w url post wid) = Returns () \<longleftrightarrow> post = None \<and> (\<exists>n. wid = Inr n)"
  by (cases post; cases wid) (simp_all add: connect_to_manager_def Let_def)

lemma connect_to_manager_registered:
  "worker_id (fst (snd (connect_to_manager w url None (Inr n)))) = Some n"
  by (simp add: connect_to_manager_def Let_def)

lemma connect_to_manager_failed:
  "fst (connect_to_manager w url post wid) \<noteq> Returns () \<Longrightarrow>
   worker_id (fst (snd (connect_to_manager w url post wid))) = worker_id w"
  by (cases post; cases wid) (simp_all add: connect_to_manager_def Let_def)

text \<open>
  C8, as stated, does not hold: a second \<^verbatim>\<open>connect_to_manager\<close> whose response carries
  another id replaces \<open>worker_id\<close>.
\<close>

theorem worker_id_reassigned_counterexample:
  "worker_id (fst (run_ops worker_example [OpConnectToManager None None (Inr 7)])) = Some 7
   \<and> worker_id (fst (run_ops worker_example
                       [OpConnectToManager None None (Inr 7),
                        OpConnectToManager None None (Inr 8)])) = Some 8"
  by (simp add: worker_example_eq forget_def connect_to_manager_def Let_def)

text \<open>
  C8, amended. Every call of \<^verbatim>\<open>connect_to_manager\<close> leaves \<open>is_alive\<close> true and
  \<open>manager_url\<close> the argument, or \<^verbatim>\<open>localhost:43000\<close> when the argument is \<open>None\<close> or
  empty. The call returns exactly when the registration post returns and the response
  carries a \<^verbatim>\<open>worker_id\<close> that \<^verbatim>\<open>int\<close> accepts; it then stores that integer as
  \<open>worker_id\<close>, whatever was there before. A call whose post raises, or whose response
  cannot be read, raises and leaves \<open>worker_id\<close> as it was. No other operation changes
  \<open>worker_id\<close>, so after any sequence of operations it is the id of the last
  registration that succeeded.
\<close>

theorem connect_to_manager_registers:
  "is_alive (fst (snd (connect_to_manager w url post wid)))
   \<and> manager_url (fst (snd (connect_to_manager w url post wid)))
       = Some (if url = None \<or> url = Some [] then ''localhost:43000'' else the url)
   \<and> (fst (connect_to_manager w url post wid) = Returns ()
        \<longleftrightarrow> post = None \<and> (\<exists>n. wid = Inr n))
   \<and> worker_id (fst (snd (connect_to_manager w url None (Inr n)))) = Some n
   \<and> (fst (connect_to_manager w url post wid) \<noteq> Returns ()
        \<longrightarrow> worker_id (fst (snd (connect_to_manager w url post wid))) = worker_id w)
   \<and> ((\<forall>operation \<in> set ops. registered_id operation = None)
        \<longrightarrow> worker_id (fst (run_ops w ops)) = worker_id w)
   \<and> ((\<forall>operation \<in> set ops. registered_id operation = None)
        \<longrightarrow> worker_id (fst (run_ops w (before @ OpConnectToManager url None (Inr n) # ops)))
            = Some n)"
proof -
  have last_registration:
    "worker_id (fst (run_ops w (before @ OpConnectToManager url None (Inr n) # ops))) = Some n"
    if no: "\<forall>operation \<in> set ops. registered_id operation = None"
  proof -
    obtain w1 evs1 where b: "run_ops w before = (w1, evs1)"
      by (cases "run_ops w before")
    obtain w2 evs2 where c: "apply_op w1 (OpConnectToManager url None (Inr n)) = (w2, evs2)"
      by (cases "apply_op w1 (OpConnectToManager url None (Inr n))")
    have id2: "worker_id w2 = Some n"
      using c connect_to_manager_registered[of w1 url n] by (simp add: forget_def)
    obtain w3 evs3 where d: "run_ops w2 ops = (w3, evs3)"
      by (cases "run_ops w2 ops")
    have "worker_id w3 = worker_id w2"
      using run_ops_worker_id[OF no, of w2] d by simp
    then show ?thesis
      using b c d id2 by (simp add: run_ops_append)
  qed
  have others: "(\<forall>operation \<in> set ops. registered_id operation = None)
        \<longrightarrow> worker_id (fst (run_ops w ops)) = worker_id w"
    using run_ops_worker_id[of ops w] by blast
  have failed: "fst (connect_to_manager w url post wid) \<noteq> Returns ()
        \<longrightarrow> worker_id (fst (snd (connect_to_manager w url post wid))) = worker_id w"
    using connect_to_manager_failed[of w url post wid] by blast
  show ?thesis
    using connect_to_manager_url[of w url post wid] connect_to_manager_returns[of w url post wid]
      connect_to_manager_registered[of w url n] failed others last_registration
    by blast
qed

text \<open>
  The default address and a given one; a manager that cannot be reached and a response
  without an id, which leave \<open>worker_id\<close> as it was; and a run in which the worker
  registers as 7 and then as 8, where a later, failed registration does not change the 8.
\<close>

theorem connect_to_manager_registers_witness:
  "manager_url (fst (snd (connect_to_manager worker_example (Some []) None (Inr 7))))
       = Some ''localhost:43000''
   \<and> manager_url (fst (snd (connect_to_manager worker_example (Some ''manager:43000'')
                              (Some ConnectionError) (Inr 7))))
       = Some ''manager:43000''
   \<and> worker_id (fst (snd (connect_to_manager worker_example (Some ''manager:43000'')
                             (Some ConnectionError) (Inr 7)))) = None
   \<and> worker_id (fst (snd (connect_to_manager (worker_example\<lparr>worker_id := Some 7\<rparr>) None
                             None (Inl TypeError)))) = Some 7
   \<and> worker_id (fst (run_ops worker_example
         ([OpConnectToManager None None (Inr 7)] @ OpConnectToManager None None (Inr 8)
            # [OpSetupBuild 42 [] 0, OpConnectToManager None (Some Timeout) (Inr 9),
               OpRunHeartbeat None]))) = Some 8"
proof -
  have default: "manager_url (fst (snd (connect_to_manager worker_example (Some []) None (Inr 7))))
       = Some ''localhost:43000''"
    using connect_to_manager_registers[of worker_example "Some []" None "Inr 7" 7 "[]" "[]",
        THEN conjunct2, THEN conjunct1]
    by simp
  have given: "manager_url (fst (snd (connect_to_manager worker_example (Some ''manager:43000'')
                              (Some ConnectionError) (Inr 7))))
       = Some ''manager:43000''"
    using connect_to_manager_registers[of worker_example "Some ''manager:43000''"
        "Some ConnectionError" "Inr 7" 7 "[]" "[]", THEN conjunct2, THEN conjunct1]
    by simp
  have unreachable: "worker_id (fst (snd (connect_to_manager worker_example
        (Some ''manager:43000'') (Some ConnectionError) (Inr 7)))) = None"
    using connect_to_manager_registers[of worker_example "Some ''manager:43000''"
        "Some ConnectionError" "Inr 7" 7 "[]" "[]"]
    by (simp add: worker_example_eq)
  have unreadable: "worker_id (fst (snd (connect_to_manager (worker_example\<lparr>worker_id := Some 7\<rparr>)
        None None (Inl TypeError)))) = Some 7"
    using connect_to_manager_registers[of "worker_example\<lparr>worker_id := Some 7\<rparr>" None None
        "Inl TypeError" 7 "[]" "[]"]
    by simp
  have later: "\<forall>operation \<in> set [OpSetupBuild 42 [] 0,
        OpConnectToManager None (Some Timeout) (Inr 9), OpRunHeartbeat None].
      registered_id operation = None"
    by simp
  have last: "worker_id (fst (run_ops worker_example
         ([OpConnectToManager None None (Inr 7)] @ OpConnectToManager None None (Inr 8)
            # [OpSetupBuild 42 [] 0, OpConnectToManager None (Some Timeout) (Inr 9),
               OpRunHeartbeat None]))) = Some 8"
    by (rule connect_to_manager_registers[of worker_example None None "Inr 8" 8
          "[OpSetupBuild 42 [] 0, OpConnectToManager None (Some Timeout) (Inr 9),
            OpRunHeartbeat None]"
          "[OpConnectToManager None None (Inr 7)]",
          THEN conjunct2, THEN conjunct2, THEN conjunct2, THEN conjunct2, THEN conjunct2,
          THEN conjunct2, THEN mp, OF later])
  show ?thesis
    by (rule conjI[OF default conjI[OF given conjI[OF unreachable conjI[OF unreadable last]]]])
qed

subsection \<open>One executor per subjob\<close>

lemma start_working_accepted:
  "current_build_id w = Some build_id \<Longrightarrow> idle_executors w = executor # rest \<Longrightarrow>
   start_working_on_subjob w build_id subjob_id cmds
     = (Returns [(''executor_id'', executor_id executor)], w\<lparr>idle_executors := rest\<rparr>,
        [QueueGet executor, ThreadStart (ExecuteSubjob build_id subjob_id executor cmds)])"
  by (simp add: start_working_on_subjob_def)

lemma execute_subjob_releases:
  "manager_api w = Some api \<Longrightarrow> \<not> full w \<Longrightarrow>
   execute_subjob w build_id subjob_id executor cmds (Inr results) None uploaded
     = ((case uploaded of None \<Rightarrow> Returns () | Some e \<Rightarrow> Raises e),
        w\<lparr>idle_executors := idle_executors w @ [executor]\<rparr>,
        [AnalyticsStart build_id subjob_id (executor_id executor),
         ExecutorExecute executor build_id subjob_id cmds (base_executor_index w),
         AnalyticsFinish build_id subjob_id (executor_id executor),
         OpenFile results,
         QueuePut executor,
         PostResult api build_id subjob_id (executor_id executor) results])"
  by (simp add: execute_subjob_def Let_def)

lemma execute_subjob_puts_and_posts:
  "filter is_put_or_post
     (snd (snd (execute_subjob w build_id subjob_id executor cmds executed_as opened uploaded))) = []
   \<or> (\<exists>api results.
        filter is_put_or_post
          (snd (snd (execute_subjob w build_id subjob_id executor cmds executed_as opened uploaded)))
        = [QueuePut executor,
           PostResult api build_id subjob_id (executor_id executor) results])"
  by (cases executed_as; cases "manager_api w"; cases opened)
    (simp_all add: execute_subjob_def Let_def)

text \<open>
  C4, as stated, does not hold. The call for subjob 3 of build 42 is accepted and takes
  executor 0; when \<^verbatim>\<open>executor.execute_subjob\<close> raises, or the results file cannot be
  opened, the thread ends before \<^verbatim>\<open>Queue.put\<close>, and executor 0 is not back in the queue.
\<close>

theorem subjob_executor_not_released_counterexample:
  "current_build_id
       (worker_example\<lparr>worker_id := Some 7, manager_api := Some ''localhost:43000'',
          current_build_id := Some 42\<rparr>) = Some 42
   \<and> start_working_on_subjob
       (worker_example\<lparr>worker_id := Some 7, manager_api := Some ''localhost:43000'',
          current_build_id := Some 42\<rparr>) 42 3 [''echo a'']
     = (Returns [(''executor_id'', 0)],
        worker_example\<lparr>worker_id := Some 7, manager_api := Some ''localhost:43000'',
          current_build_id := Some 42, idle_executors := [SubjobExecutor 1]\<rparr>,
        [QueueGet (SubjobExecutor 0),
         ThreadStart (ExecuteSubjob 42 3 (SubjobExecutor 0) [''echo a''])])
   \<and> execute_subjob
       (worker_example\<lparr>worker_id := Some 7, manager_api := Some ''localhost:43000'',
          current_build_id := Some 42, idle_executors := [SubjobExecutor 1]\<rparr>)
       42 3 (SubjobExecutor 0) [''echo a''] (Inl (OtherError ''execute'')) None None
     = (Raises (OtherError ''execute''),
        worker_example\<lparr>worker_id := Some 7, manager_api := Some ''localhost:43000'',
          current_build_id := Some 42, idle_executors := [SubjobExecutor 1]\<rparr>,
        [AnalyticsStart 42 3 0,
         ExecutorExecute (SubjobExecutor 0) 42 3 [''echo a''] None])
   \<and> execute_subjob
       (worker_example\<lparr>worker_id := Some 7, manager_api := Some ''localhost:43000'',
          current_build_id := Some 42, idle_executors := [SubjobExecutor 1]\<rparr>)
       42 3 (SubjobExecutor 0) [''echo a''] (Inr ''missing.tar.gz'')
       (Some (OtherError ''FileNotFoundError'')) None
     = (Raises (OtherError ''FileNotFoundError''),
        worker_example\<lparr>worker_id := Some 7, manager_api := Some ''localhost:43000'',
          current_build_id := Some 42, idle_executors := [SubjobExecutor 1]\<rparr>,
        [AnalyticsStart 42 3 0,
         ExecutorExecute (SubjobExecutor 0) 42 3 [''echo a''] None,
         AnalyticsFinish 42 3 0,
         OpenFile ''missing.tar.gz''])"
  by (simp add: worker_example_eq start_working_on_subjob_def execute_subjob_def Let_def)

text \<open>
  C4, amended. \<^verbatim>\<open>start_working_on_subjob\<close> raises \<open>BadRequestError\<close> exactly when
  \<open>build_id\<close> is not the current build. An accepted call waits while no executor is idle;
  otherwise it takes exactly one executor, the oldest of the queue, leaves the others
  where they are, starts the subjob thread with that executor and returns the dict with
  its id. Whatever happens in the thread, it puts back at most one executor, the one it
  was given, and uploads nothing before it has put it back. When
  \<^verbatim>\<open>executor.execute_subjob\<close> returns a results file, the file opens, the worker is
  connected and the queue has room, the thread does put the executor back, once, at the
  end of the queue, and then uploads the results, whether the upload succeeds or not. Run
  right after the call, on a queue that held no more executors than its capacity, it
  has room, and the queue then holds the other executors followed by the one taken.
\<close>

theorem subjob_takes_and_returns_one_executor:
  "(fst (start_working_on_subjob w build_id subjob_id cmds) = Raises BadRequestError
      \<longleftrightarrow> current_build_id w \<noteq> Some build_id)
   \<and> (current_build_id w = Some build_id \<and> idle_executors w = []
       \<longrightarrow> start_working_on_subjob w build_id subjob_id cmds = (Blocks, w, []))
   \<and> (current_build_id w = Some build_id \<and> idle_executors w = executor # rest
       \<longrightarrow> start_working_on_subjob w build_id subjob_id cmds
            = (Returns [(''executor_id'', executor_id executor)],
               w\<lparr>idle_executors := rest\<rparr>,
               [QueueGet executor,
                ThreadStart (ExecuteSubjob build_id subjob_id executor cmds)]))
   \<and> (filter is_put_or_post
         (snd (snd (execute_subjob later build_id subjob_id executor cmds executed_as opened uploaded)))
         = []
       \<or> (\<exists>api results.
            filter is_put_or_post
              (snd (snd (execute_subjob later build_id subjob_id executor cmds executed_as opened
                           uploaded)))
            = [QueuePut executor,
               PostResult api build_id subjob_id (executor_id executor) results]))
   \<and> (manager_api later = Some api \<and> \<not> full later
       \<longrightarrow> execute_subjob later build_id subjob_id executor cmds (Inr results) None uploaded
            = ((case uploaded of None \<Rightarrow> Returns () | Some e \<Rightarrow> Raises e),
               later\<lparr>idle_executors := idle_executors later @ [executor]\<rparr>,
               [AnalyticsStart build_id subjob_id (executor_id executor),
                ExecutorExecute executor build_id subjob_id cmds (base_executor_index later),
                AnalyticsFinish build_id subjob_id (executor_id executor),
                OpenFile results,
                QueuePut executor,
                PostResult api build_id subjob_id (executor_id executor) results]))
   \<and> (current_build_id w = Some build_id \<and> idle_executors w = executor # rest
       \<and> manager_api w = Some api \<and> int (length (idle_executors w)) \<le> num_executors w
       \<longrightarrow> idle_executors
             (fst (snd (execute_subjob
                          (fst (snd (start_working_on_subjob w build_id subjob_id cmds)))
                          build_id subjob_id executor cmds (Inr results) None uploaded)))
            = rest @ [executor])"
proof (intro conjI impI)
  show "fst (start_working_on_subjob w build_id subjob_id cmds) = Raises BadRequestError
      \<longleftrightarrow> current_build_id w \<noteq> Some build_id"
    by (cases "idle_executors w") (auto simp: start_working_on_subjob_def)
next
  assume "current_build_id w = Some build_id \<and> idle_executors w = []"
  then show "start_working_on_subjob w build_id subjob_id cmds = (Blocks, w, [])"
    by (simp add: start_working_on_subjob_def)
next
  assume "current_build_id w = Some build_id \<and> idle_executors w = executor # rest"
  then show "start_working_on_subjob w build_id subjob_id cmds
            = (Returns [(''executor_id'', executor_id executor)],
               w\<lparr>idle_executors := rest\<rparr>,
               [QueueGet executor,
                ThreadStart (ExecuteSubjob build_id subjob_id executor cmds)])"
    by (simp add: start_working_accepted)
next
  show "filter is_put_or_post
         (snd (snd (execute_subjob later build_id subjob_id executor cmds executed_as opened uploaded)))
         = []
       \<or> (\<exists>api results.
            filter is_put_or_post
              (snd (snd (execute_subjob later build_id subjob_id executor cmds executed_as opened
                           uploaded)))
            = [QueuePut executor,
               PostResult api build_id subjob_id (executor_id executor) results])"
    by (rule execute_subjob_puts_and_posts)
next
  assume "manager_api later = Some api \<and> \<not> full later"
  then show "execute_subjob later build_id subjob_id executor cmds (Inr results) None uploaded
            = ((case uploaded of None \<Rightarrow> Returns () | Some e \<Rightarrow> Raises e),
               later\<lparr>idle_executors := idle_executors later @ [executor]\<rparr>,
               [AnalyticsStart build_id subjob_id (executor_id executor),
                ExecutorExecute executor build_id subjob_id cmds (base_executor_index later),
                AnalyticsFinish build_id subjob_id (executor_id executor),
                OpenFile results,
                QueuePut executor,
                PostResult api build_id subjob_id (executor_id executor) results])"
    by (simp add: execute_subjob_releases)
next
  assume a: "current_build_id w = Some build_id \<and> idle_executors w = executor # rest
       \<and> manager_api w = Some api \<and> int (length (idle_executors w)) \<le> num_executors w"
  let ?taken = "w\<lparr>idle_executors := rest\<rparr>"
  have started: "fst (snd (start_working_on_subjob w build_id subjob_id cmds)) = ?taken"
    using a by (simp add: start_working_accepted)
  have room: "\<not> full ?taken" and api: "manager_api ?taken = Some api"
    using a by (auto simp: full_def)
  show "idle_executors
             (fst (snd (execute_subjob
                          (fst (snd (start_working_on_subjob w build_id subjob_id cmds)))
                          build_id subjob_id executor cmds (Inr results) None uploaded)))
            = rest @ [executor]"
    unfolding started
    by (simp add: execute_subjob_releases[OF api room])
qed

text \<open>
  The happy path of the specification: subjob 3 of build 42 gets executor 0, and the
  thread hands executor 0 back before it uploads the results.
\<close>

theorem subjob_takes_and_returns_one_executor_witness:
  "start_working_on_subjob
       (worker_example\<lparr>worker_id := Some 7, manager_api := Some ''localhost:43000'',
          current_build_id := Some 42\<rparr>) 42 3 [''echo a'']
     = (Returns [(''executor_id'', 0)],
        worker_example\<lparr>worker_id := Some 7, manager_api := Some ''localhost:43000'',
          current_build_id := Some 42, idle_executors := [SubjobExecutor 1]\<rparr>,
        [QueueGet (SubjobExecutor 0),
         ThreadStart (ExecuteSubjob 42 3 (SubjobExecutor 0) [''echo a''])])
   \<and> execute_subjob
       (worker_example\<lparr>worker_id := Some 7, manager_api := Some ''localhost:43000'',
          current_build_id := Some 42, idle_executors := [SubjobExecutor 1]\<rparr>)
       42 3 (SubjobExecutor 0) [''echo a''] (Inr ''results.tar.gz'') None None
     = (Returns (),
        worker_example\<lparr>worker_id := Some 7, manager_api := Some ''localhost:43000'',
          current_build_id := Some 42,
          idle_executors := [SubjobExecutor 1, SubjobExecutor 0]\<rparr>,
        [AnalyticsStart 42 3 0,
         ExecutorExecute (SubjobExecutor 0) 42 3 [''echo a''] None,
         AnalyticsFinish 42 3 0,
         OpenFile ''results.tar.gz'',
         QueuePut (SubjobExecutor 0),
         PostResult ''localhost:43000'' 42 3 0 ''results.tar.gz''])"
proof -
  let ?w = "worker_example\<lparr>worker_id := Some 7, manager_api := Some ''localhost:43000'',
          current_build_id := Some 42\<rparr>"
  let ?later = "worker_example\<lparr>worker_id := Some 7, manager_api := Some ''localhost:43000'',
          current_build_id := Some 42, idle_executors := [SubjobExecutor 1]\<rparr>"
  have accepted: "current_build_id ?w = Some 42
      \<and> idle_executors ?w = SubjobExecutor 0 # [SubjobExecutor 1]"
    by (simp add: worker_example_eq)
  have room: "manager_api ?later = Some ''localhost:43000'' \<and> \<not> full ?later"
    by (simp add: worker_example_eq full_def)
  note at_example = subjob_takes_and_returns_one_executor[of ?w 42 3 "[''echo a'']"
        "SubjobExecutor 0" "[SubjobExecutor 1]" ?later "Inr ''results.tar.gz''" None None
        "''localhost:43000''" "''results.tar.gz''"]
  have started: "start_working_on_subjob ?w 42 3 [''echo a'']
     = (Returns [(''executor_id'', 0)], ?later,
        [QueueGet (SubjobExecutor 0),
         ThreadStart (ExecuteSubjob 42 3 (SubjobExecutor 0) [''echo a''])])"
    using at_example[THEN conjunct2, THEN conjunct2, THEN conjunct1, THEN mp, OF accepted]
    by (simp add: worker_example_eq)
  have executed: "execute_subjob ?later 42 3 (SubjobExecutor 0) [''echo a'']
        (Inr ''results.tar.gz'') None None
     = (Returns (),
        worker_example\<lparr>worker_id := Some 7, manager_api := Some ''localhost:43000'',
          current_build_id := Some 42,
          idle_executors := [SubjobExecutor 1, SubjobExecutor 0]\<rparr>,
        [AnalyticsStart 42 3 0,
         ExecutorExecute (SubjobExecutor 0) 42 3 [''echo a''] None,
         AnalyticsFinish 42 3 0,
         OpenFile ''results.tar.gz'',
         QueuePut (SubjobExecutor 0),
         PostResult ''localhost:43000'' 42 3 0 ''results.tar.gz''])"
    using at_example[THEN conjunct2, THEN conjunct2, THEN conjunct2, THEN conjunct2,
        THEN conjunct1, THEN mp, OF room]
    by (simp add: worker_example_eq)
  show ?thesis
    by (rule conjI[OF started executed])
qed

end
